theory Spec2Isabelle
  imports Complex_Main "HOL-Library.Word"
begin

section \<open>Errors of the publishing core\<close>

text \<open>
  \<^verbatim>\<open>ERROR_TYPES\<close> of the post queue, and the three exception classes the code
  distinguishes with \<^verbatim>\<open>instanceof\<close>: \<^verbatim>\<open>PostQueueError(message, type, retryable)\<close>,
  \<^verbatim>\<open>FacebookAPIError(message, code)\<close> and its subclass
  \<^verbatim>\<open>RateLimitError(message, retryAfter)\<close>. Any other thrown value (a
  \<^verbatim>\<open>TypeError\<close>, a \<^verbatim>\<open>RangeError\<close>) is \<open>OtherError\<close>.
\<close>

datatype error_type =
  RATE_LIMIT | API_ERROR | NETWORK_ERROR | INVALID_TOKEN | MISSING_ACCOUNT | INVALID_CONTENT | UNKNOWN

datatype js_code = CodeStr string | CodeNum int

datatype js_error =
    PostQueueError string error_type bool
  | FacebookAPIError string js_code
  | RateLimitError string int
  | OtherError string

fun message :: "js_error \<Rightarrow> string" where
  "message (PostQueueError m ty r) = m"
| "message (FacebookAPIError m c) = m"
| "message (RateLimitError m w) = m"
| "message (OtherError m) = m"

text \<open>Decimal rendering of a number inside a template literal.\<close>

definition digitChar :: "nat \<Rightarrow> char" where
  "digitChar d = ''0123456789'' ! d"

fun digitsOf :: "nat \<Rightarrow> string" where
  "digitsOf n =
     (if n < 10 then [digitChar n]
      else digitsOf (n div 10) @ [digitChar (n mod 10)])"

declare digitsOf.simps [simp del]

definition numberToString :: "int \<Rightarrow> string" where
  "numberToString i = (if i < 0 then CHR ''-'' # digitsOf (nat (- i)) else digitsOf (nat i))"

section \<open>The rate gate (\<^verbatim>\<open>rateLimitTracker\<close> of the Graph API layer)\<close>

text \<open>
  One object, created when the module loads: \<^verbatim>\<open>requests\<close> starts at 0,
  \<^verbatim>\<open>resetTime\<close> at load time plus one hour, \<^verbatim>\<open>maxRequests\<close> is read from the
  configuration (200 when unset). Timestamps are \<^verbatim>\<open>Date.now()\<close> readings: integer
  milliseconds.
\<close>

record rateLimitTracker =
  requests :: int
  resetTime :: int
  maxRequests :: int

definition windowLength :: int where
  "windowLength = 60 * 60 * 1000"

text \<open>
  \<^verbatim>\<open>Math.ceil(ms / 1000)\<close> on an integer number of milliseconds. The division of the
  source is a floating point one; on integers of this size its ceiling is the exact one
  (\<open>ceilSeconds_ceiling\<close> below relates it to the ceiling of the real quotient).
\<close>

definition ceilSeconds :: "int \<Rightarrow> int" where
  "ceilSeconds ms = - ((- ms) div 1000)"

definition rateLimitMessage :: "int \<Rightarrow> string" where
  "rateLimitMessage waitTime =
     ''Rate limit exceeded. Try again in '' @ numberToString waitTime @ '' seconds.''"

text \<open>
  \<^verbatim>\<open>checkLimit()\<close>, with the clock reading \<open>now\<close> it takes as an argument. The roll of
  the window is kept also when the check then throws.
\<close>

definition checkLimit :: "int \<Rightarrow> rateLimitTracker \<Rightarrow> (js_error + unit) \<times> rateLimitTracker" where
  "checkLimit now t =
     (let t1 = (if now > resetTime t
                then t\<lparr>requests := 0, resetTime := now + windowLength\<rparr>
                else t)
      in if requests t1 \<ge> maxRequests t1
         then (let waitTime = ceilSeconds (resetTime t1 - now)
               in (Inl (RateLimitError (rateLimitMessage waitTime) waitTime), t1))
         else (Inr (), t1\<lparr>requests := requests t1 + 1\<rparr>))"

text \<open>A run of permission checks, one after the other, at the given clock readings.\<close>

fun checkLimits :: "int list \<Rightarrow> rateLimitTracker \<Rightarrow> (js_error + unit) list \<times> rateLimitTracker" where
  "checkLimits [] t = ([], t)"
| "checkLimits (now # nows) t =
     (let (r, t1) = checkLimit now t;
          (rs, t2) = checkLimits nows t1
      in (r # rs, t2))"

section \<open>Posts, accounts and the persistence collaborator\<close>

datatype post_status = SCHEDULED | PROCESSING | POSTING | POSTED | FAILED | CANCELLED

text \<open>
  A JavaScript string is a sequence of UTF-16 code units; the post's text is kept as such,
  since \<^verbatim>\<open>trim()\<close> is defined on code units. Identifiers, URLs, tokens and messages are
  plain strings. A field that may be \<^verbatim>\<open>null\<close> or \<^verbatim>\<open>undefined\<close> is an option.
\<close>

type_synonym js_string = "16 word list"

record social_account =
  platform :: string
  account_id :: string
  access_token :: "string option"
  is_active :: bool

text \<open>
  A row of \<^verbatim>\<open>scheduled_posts\<close>, with the account the due-post query embeds in it
  (\<^verbatim>\<open>social_accounts\<close>); \<open>post_id\<close> is the column \<^verbatim>\<open>id\<close>. Timestamps are milliseconds (the ISO strings of the source
  denote them one to one).
\<close>

record scheduled_post =
  post_id :: nat
  user_id :: nat
  social_account_id :: nat
  content :: "js_string option"
  media_urls :: "string list option"
  hashtags :: "string list"
  location :: "string option"
  scheduled_for :: int
  status :: post_status
  retry_count :: "int option"
  error_message :: "string option"
  platform_post_id :: "string option"
  updated_at :: int
  social_accounts :: "social_account option"

text \<open>
  The object passed to \<^verbatim>\<open>db.updateScheduledPost\<close>: a column is written only when its key
  is present (\<open>Some\<close>); \<open>Some None\<close> writes \<^verbatim>\<open>null\<close>. A key whose value is
  \<^verbatim>\<open>undefined\<close> is dropped when the request body is serialised, so it is absent here.
\<close>

record post_updates =
  set_status :: "post_status option"
  set_scheduled_for :: "int option"
  set_retry_count :: "int option"
  set_error_message :: "string option option"
  set_platform_post_id :: "string option option"
  set_updated_at :: "int option"

definition noUpdates :: post_updates where
  "noUpdates = \<lparr>set_status = None, set_scheduled_for = None, set_retry_count = None,
     set_error_message = None, set_platform_post_id = None, set_updated_at = None\<rparr>"

definition orElse :: "'a option \<Rightarrow> 'a \<Rightarrow> 'a" where
  "orElse v d = (case v of None \<Rightarrow> d | Some x \<Rightarrow> x)"

definition applyUpdates :: "post_updates \<Rightarrow> scheduled_post \<Rightarrow> scheduled_post" where
  "applyUpdates u r =
     r\<lparr>status := orElse (set_status u) (status r),
       scheduled_for := orElse (set_scheduled_for u) (scheduled_for r),
       retry_count := (case set_retry_count u of None \<Rightarrow> retry_count r | Some n \<Rightarrow> Some n),
       error_message := orElse (set_error_message u) (error_message r),
       platform_post_id := orElse (set_platform_post_id u) (platform_post_id r),
       updated_at := orElse (set_updated_at u) (updated_at r)\<rparr>"

text \<open>Object spread \<^verbatim>\<open>{...a, ...b}\<close>: a key of \<open>b\<close> wins over the same key of \<open>a\<close>.\<close>

definition spread :: "post_updates \<Rightarrow> post_updates \<Rightarrow> post_updates" where
  "spread a b =
     \<lparr>set_status = (case set_status b of None \<Rightarrow> set_status a | Some v \<Rightarrow> Some v),
      set_scheduled_for = (case set_scheduled_for b of None \<Rightarrow> set_scheduled_for a | Some v \<Rightarrow> Some v),
      set_retry_count = (case set_retry_count b of None \<Rightarrow> set_retry_count a | Some v \<Rightarrow> Some v),
      set_error_message = (case set_error_message b of None \<Rightarrow> set_error_message a | Some v \<Rightarrow> Some v),
      set_platform_post_id =
        (case set_platform_post_id b of None \<Rightarrow> set_platform_post_id a | Some v \<Rightarrow> Some v),
      set_updated_at = (case set_updated_at b of None \<Rightarrow> set_updated_at a | Some v \<Rightarrow> Some v)\<rparr>"

text \<open>
  The persistence collaborator, as the core consumes it: the table of posts (its primary
  key is \<open>post_id\<close>) and whether the service answers. \<^verbatim>\<open>db.updateScheduledPost\<close> and
  \<^verbatim>\<open>db.getScheduledPosts\<close> never throw: they return the row(s) together with an error
  that is \<^verbatim>\<open>null\<close> on success. The update asks for exactly one row back
  (\<^verbatim>\<open>.eq('id', postId).select().single()\<close>), so an id that matches no row is an error.
\<close>

record database =
  scheduled_posts :: "scheduled_post list"
  online :: bool

definition updateScheduledPost ::
  "nat \<Rightarrow> post_updates \<Rightarrow> database \<Rightarrow> (scheduled_post option \<times> string option) \<times> database" where
  "updateScheduledPost postId updates db =
     (if \<not> online db then ((None, Some ''Failed to fetch''), db)
      else (case filter (\<lambda>r. post_id r = postId) (scheduled_posts db) of
              [r] \<Rightarrow>
                ((Some (applyUpdates updates r), None),
                 db\<lparr>scheduled_posts :=
                      map (\<lambda>r. if post_id r = postId then applyUpdates updates r else r)
                        (scheduled_posts db)\<rparr>)
            | _ \<Rightarrow> ((None, Some ''JSON object requested, multiple (or no) rows returned''), db)))"

definition getScheduledPosts ::
  "nat \<Rightarrow> nat \<Rightarrow> database \<Rightarrow> scheduled_post list \<times> string option" where
  "getScheduledPosts userId limit db =
     (if \<not> online db then ([], Some ''Failed to fetch'')
      else (take limit (sort_key scheduled_for
              (filter (\<lambda>r. user_id r = userId) (scheduled_posts db))), None))"

definition getRow :: "database \<Rightarrow> nat \<Rightarrow> scheduled_post option" where
  "getRow db postId = find (\<lambda>r. post_id r = postId) (scheduled_posts db)"

text \<open>The service answers and \<open>r\<close> is the one row with this id: a write to it succeeds.\<close>

definition stored :: "database \<Rightarrow> nat \<Rightarrow> scheduled_post \<Rightarrow> bool" where
  "stored db postId r =
     (online db \<and> filter (\<lambda>x. post_id x = postId) (scheduled_posts db) = [r])"

section \<open>The queue processor: validation, retry policy, status writes\<close>

definition isWhiteSpace :: "16 word \<Rightarrow> bool" where
  "isWhiteSpace c =
     (c \<in> set [0x0009, 0x000A, 0x000B, 0x000C, 0x000D, 0x0020, 0x00A0, 0x1680, 0x2028,
                0x2029, 0x202F, 0x205F, 0x3000, 0xFEFF]
      \<or> (0x2000 \<le> c \<and> c \<le> 0x200A))"

definition trim :: "js_string \<Rightarrow> js_string" where
  "trim s = rev (dropWhile isWhiteSpace (rev (dropWhile isWhiteSpace s)))"

text \<open>
  \<^verbatim>\<open>s?.trim()\<close> when it is truthy (\<open>trimmed\<close>), and \<^verbatim>\<open>!s?.trim()\<close> (\<open>blank\<close>): true for
  \<^verbatim>\<open>null\<close>, \<^verbatim>\<open>undefined\<close> and a string of white space only.
\<close>

definition trimmed :: "js_string option \<Rightarrow> js_string option" where
  "trimmed s = (case s of None \<Rightarrow> None | Some x \<Rightarrow> if trim x = [] then None else Some (trim x))"

definition blank :: "js_string option \<Rightarrow> bool" where
  "blank s = (trimmed s = None)"

text \<open>\<^verbatim>\<open>!s\<close> for a string that may be missing.\<close>

definition falsy :: "string option \<Rightarrow> bool" where
  "falsy s = (case s of None \<Rightarrow> True | Some x \<Rightarrow> x = [])"

definition validatePost :: "scheduled_post \<Rightarrow> js_error + unit" where
  "validatePost post =
     (case social_accounts post of
        None \<Rightarrow> Inl (PostQueueError ''Social account not found'' MISSING_ACCOUNT False)
      | Some account \<Rightarrow>
          if \<not> is_active account
          then Inl (PostQueueError ''Social account is inactive'' MISSING_ACCOUNT False)
          else if blank (content post)
          then Inl (PostQueueError ''Post content is empty'' INVALID_CONTENT False)
          else if falsy (access_token account)
          then Inl (PostQueueError ''Access token missing'' INVALID_TOKEN True)
          else Inr ())"

definition maxRetries :: int where
  "maxRetries = 3"

definition retryDelays :: "int list" where
  "retryDelays = [30000, 60000, 300000, 900000]"

fun isPostQueueError :: "js_error \<Rightarrow> bool" where
  "isPostQueueError (PostQueueError m ty r) = True"
| "isPostQueueError e = False"

text \<open>\<^verbatim>\<open>error.retryable\<close> and \<^verbatim>\<open>error.type\<close>: set on a \<open>PostQueueError\<close> only.\<close>

fun retryable :: "js_error \<Rightarrow> bool" where
  "retryable (PostQueueError m ty r) = r"
| "retryable e = False"

fun errorType :: "js_error \<Rightarrow> error_type option" where
  "errorType (PostQueueError m ty r) = Some ty"
| "errorType e = None"

text \<open>\<^verbatim>\<open>post.retry_count || 0\<close>\<close>

definition retryCountOf :: "scheduled_post \<Rightarrow> int" where
  "retryCountOf post = orElse (retry_count post) 0"

definition shouldRetryPost :: "scheduled_post \<Rightarrow> js_error \<Rightarrow> bool" where
  "shouldRetryPost post error =
     (if isPostQueueError error \<and> \<not> retryable error then False
      else if retryCountOf post \<ge> maxRetries then False
      else if isPostQueueError error \<and> errorType error = Some INVALID_CONTENT then False
      else True)"

text \<open>
  \<^verbatim>\<open>retryDelays[Math.min(retryCount - 1, retryDelays.length - 1)]\<close>; a negative index
  reads \<^verbatim>\<open>undefined\<close>.
\<close>

definition nextDelay :: "int \<Rightarrow> int option" where
  "nextDelay retryCount =
     (let i = min (retryCount - 1) (int (length retryDelays) - 1)
      in if i < 0 then None else Some (retryDelays ! nat i))"

definition retryMessage :: "int \<Rightarrow> js_error \<Rightarrow> string" where
  "retryMessage retryCount error =
     ''Retry '' @ numberToString retryCount @ '': '' @ message error"

text \<open>
  \<^verbatim>\<open>scheduleRetry(post, error)\<close> at clock reading \<open>now\<close>. With no delay to add, the
  date is invalid and \<^verbatim>\<open>toISOString()\<close> throws before anything is written. The result of
  the write is not looked at.
\<close>

definition scheduleRetry ::
  "scheduled_post \<Rightarrow> js_error \<Rightarrow> int \<Rightarrow> database \<Rightarrow> (js_error + unit) \<times> database" where
  "scheduleRetry post error now db =
     (let retryCount = retryCountOf post + 1
      in case nextDelay retryCount of
           None \<Rightarrow> (Inl (OtherError ''Invalid time value''), db)
         | Some delay \<Rightarrow>
             (Inr (),
              snd (updateScheduledPost (post_id post)
                (noUpdates\<lparr>set_status := Some SCHEDULED,
                   set_scheduled_for := Some (now + delay),
                   set_retry_count := Some retryCount,
                   set_error_message := Some (Some (retryMessage retryCount error))\<rparr>) db)))"

text \<open>\<^verbatim>\<open>updatePostStatus(postId, status, additionalData)\<close> at clock reading \<open>now\<close>.\<close>

definition updatePostStatus ::
  "nat \<Rightarrow> post_status \<Rightarrow> post_updates \<Rightarrow> int \<Rightarrow> database \<Rightarrow> (js_error + unit) \<times> database" where
  "updatePostStatus postId st additionalData now db =
     (let updateData =
            spread (noUpdates\<lparr>set_status := Some st, set_updated_at := Some now\<rparr>) additionalData
      in case updateScheduledPost postId updateData db of
           ((row, Some err), db') \<Rightarrow>
             (Inl (PostQueueError (''Failed to update post status: '' @ err) UNKNOWN False), db')
         | ((row, None), db') \<Rightarrow> (Inr (), db'))"

section \<open>The Graph API layer\<close>

text \<open>
  Every method of \<^verbatim>\<open>facebookAPI\<close> first calls \<^verbatim>\<open>rateLimitTracker.checkLimit()\<close> on the
  one tracker of the module, then issues at most one \<^verbatim>\<open>fetch\<close>. The state threaded through
  the calls is that tracker and the log of the requests put on the wire, oldest first.
  The clock reading and the answer of the network are arguments.
\<close>

datatype outbound_call =
    DebugToken "string option"
  | FeedPost string "string option" js_string
  | PhotoPost string "string option" string "js_string option"
  | MediaCreate string "string option" string "js_string option"
  | MediaPublish string "string option" "string option"

record api_state =
  tracker :: rateLimitTracker
  wire :: "outbound_call list"

text \<open>The requests that publish something, as opposed to the token introspection.\<close>

fun isPublishCall :: "outbound_call \<Rightarrow> bool" where
  "isPublishCall (DebugToken t) = False"
| "isPublishCall c = True"

text \<open>What one publishing method puts on the wire: nothing, or one publishing request.\<close>

definition oneCall :: "outbound_call list \<Rightarrow> bool" where
  "oneCall calls = (calls = [] \<or> (\<exists>c. calls = [c] \<and> isPublishCall c))"

text \<open>
  What a \<^verbatim>\<open>fetch\<close> followed by \<^verbatim>\<open>response.json()\<close> gives: an exception (with its
  message), or \<^verbatim>\<open>response.ok\<close> and the parsed body.
\<close>

datatype 'a fetch_result = FetchRejected string | FetchResponse bool 'a

record graph_reply =
  reply_id :: "string option"
  reply_post_id :: "string option"
  reply_error_message :: "string option"
  reply_error_code :: "js_code option"

text \<open>\<^verbatim>\<open>a || b\<close> on strings that may be missing, and on an error code with a default.\<close>

definition firstTruthy :: "string option \<Rightarrow> string option \<Rightarrow> string option" where
  "firstTruthy a b = (if falsy a then b else a)"

definition messageOr :: "string option \<Rightarrow> string \<Rightarrow> string" where
  "messageOr m d = (case m of None \<Rightarrow> d | Some x \<Rightarrow> if x = [] then d else x)"

definition codeOr :: "js_code option \<Rightarrow> string \<Rightarrow> js_code" where
  "codeOr c d =
     (case c of
        None \<Rightarrow> CodeStr d
      | Some (CodeStr x) \<Rightarrow> if x = [] then CodeStr d else CodeStr x
      | Some (CodeNum n) \<Rightarrow> if n = 0 then CodeStr d else CodeNum n)"

text \<open>
  The body every publishing method runs around its \<^verbatim>\<open>fetch\<close>: a response that is not ok
  throws a \<open>FacebookAPIError\<close> with the reported message and code (or the method's
  defaults); any other exception is wrapped as a network error.
\<close>

definition graphResult ::
  "string \<Rightarrow> string \<Rightarrow> graph_reply fetch_result \<Rightarrow> js_error + graph_reply" where
  "graphResult defaultMessage defaultCode resp =
     (case resp of
        FetchRejected m \<Rightarrow> Inl (FacebookAPIError (''Network error: '' @ m) (CodeStr ''NETWORK_ERROR''))
      | FetchResponse ok body \<Rightarrow>
          if \<not> ok
          then Inl (FacebookAPIError (messageOr (reply_error_message body) defaultMessage)
                 (codeOr (reply_error_code body) defaultCode))
          else Inr body)"

definition acquire :: "int \<Rightarrow> api_state \<Rightarrow> (js_error + unit) \<times> api_state" where
  "acquire now st =
     (case checkLimit now (tracker st) of (r, t) \<Rightarrow> (r, st\<lparr>tracker := t\<rparr>))"

definition send :: "outbound_call \<Rightarrow> api_state \<Rightarrow> api_state" where
  "send c st = st\<lparr>wire := wire st @ [c]\<rparr>"

definition validateToken ::
  "string option \<Rightarrow> int \<Rightarrow> bool option fetch_result \<Rightarrow> api_state \<Rightarrow> (js_error + bool) \<times> api_state" where
  "validateToken accessToken now resp st =
     (case acquire now st of
        (Inl e, st1) \<Rightarrow> (Inl e, st1)
      | (Inr u, st1) \<Rightarrow>
          (Inr (case resp of
                  FetchRejected m \<Rightarrow> False
                | FetchResponse ok is_valid \<Rightarrow> if \<not> ok then False else is_valid = Some True),
           send (DebugToken accessToken) st1))"

definition publishPagePost ::
  "string \<Rightarrow> string option \<Rightarrow> js_string option \<Rightarrow> int \<Rightarrow> graph_reply fetch_result \<Rightarrow> api_state
     \<Rightarrow> (js_error + graph_reply) \<times> api_state" where
  "publishPagePost pageId pageAccessToken msg now resp st =
     (case acquire now st of
        (Inl e, st1) \<Rightarrow> (Inl e, st1)
      | (Inr u, st1) \<Rightarrow>
          (case trimmed msg of
             None \<Rightarrow>
               (Inl (FacebookAPIError ''Post message cannot be empty'' (CodeStr ''EMPTY_MESSAGE'')), st1)
           | Some text \<Rightarrow>
               (graphResult ''Failed to publish post'' ''PUBLISH_FAILED'' resp,
                send (FeedPost pageId pageAccessToken text) st1)))"

definition publishPagePhoto ::
  "string \<Rightarrow> string option \<Rightarrow> js_string option \<Rightarrow> string \<Rightarrow> int \<Rightarrow> graph_reply fetch_result
     \<Rightarrow> api_state \<Rightarrow> (js_error + graph_reply) \<times> api_state" where
  "publishPagePhoto pageId pageAccessToken msg url now resp st =
     (case acquire now st of
        (Inl e, st1) \<Rightarrow> (Inl e, st1)
      | (Inr u, st1) \<Rightarrow>
          if url = []
          then (Inl (FacebookAPIError ''Photo URL is required'' (CodeStr ''MISSING_PHOTO_URL'')), st1)
          else (graphResult ''Failed to publish photo'' ''PHOTO_PUBLISH_FAILED'' resp,
                send (PhotoPost pageId pageAccessToken url (trimmed msg)) st1))"

definition createInstagramPost ::
  "string \<Rightarrow> string option \<Rightarrow> string \<Rightarrow> js_string option \<Rightarrow> int \<Rightarrow> graph_reply fetch_result
     \<Rightarrow> api_state \<Rightarrow> (js_error + graph_reply) \<times> api_state" where
  "createInstagramPost instagramAccountId pageAccessToken image_url caption now resp st =
     (case acquire now st of
        (Inl e, st1) \<Rightarrow> (Inl e, st1)
      | (Inr u, st1) \<Rightarrow>
          if image_url = []
          then (Inl (FacebookAPIError ''Image URL is required for Instagram posts''
                  (CodeStr ''MISSING_IMAGE_URL'')), st1)
          else (graphResult ''Failed to create Instagram media'' ''INSTAGRAM_CREATE_FAILED'' resp,
                send (MediaCreate instagramAccountId pageAccessToken image_url (trimmed caption)) st1))"

definition publishInstagramPost ::
  "string \<Rightarrow> string option \<Rightarrow> string option \<Rightarrow> int \<Rightarrow> graph_reply fetch_result \<Rightarrow> api_state
     \<Rightarrow> (js_error + graph_reply) \<times> api_state" where
  "publishInstagramPost instagramAccountId creationId pageAccessToken now resp st =
     (case acquire now st of
        (Inl e, st1) \<Rightarrow> (Inl e, st1)
      | (Inr u, st1) \<Rightarrow>
          (graphResult ''Failed to publish Instagram media'' ''INSTAGRAM_PUBLISH_FAILED'' resp,
           send (MediaPublish instagramAccountId pageAccessToken creationId) st1))"

section \<open>The platform publishers\<close>

text \<open>
  What one pipeline reads from outside while it runs: the clock at each use and the
  network's answer to each request, in the order of use.
\<close>

record pipeline_env =
  t_processing :: int
  t_validate :: int
  r_validate :: "bool option fetch_result"
  t_first :: int
  r_first :: "graph_reply fetch_result"
  t_second :: int
  r_second :: "graph_reply fetch_result"
  t_posted :: int
  t_failure :: int

record publish_result =
  result_platform_post_id :: "string option"
  result_platform :: string

text \<open>
  The \<^verbatim>\<open>catch\<close> block both publishers end with. It receives every exception of the
  \<^verbatim>\<open>try\<close> block, also the \<open>PostQueueError\<close>s thrown in that block itself.
\<close>

definition classify :: "js_error \<Rightarrow> js_error" where
  "classify error =
     (case error of
        RateLimitError m w \<Rightarrow> PostQueueError m RATE_LIMIT True
      | FacebookAPIError m c \<Rightarrow> PostQueueError m API_ERROR (c \<noteq> CodeStr ''OAuthException'')
      | PostQueueError m ty r \<Rightarrow> PostQueueError m NETWORK_ERROR True
      | OtherError m \<Rightarrow> PostQueueError m NETWORK_ERROR True)"

text \<open>
  \<^verbatim>\<open>post.media_urls[0]\<close> where \<^verbatim>\<open>post.media_urls && post.media_urls.length > 0\<close>, and
  \<open>None\<close> where the list is missing or empty.
\<close>

definition firstMedia :: "scheduled_post \<Rightarrow> string option" where
  "firstMedia post = (case media_urls post of Some (url # urls) \<Rightarrow> Some url | _ \<Rightarrow> None)"

definition publishToFacebook_try ::
  "scheduled_post \<Rightarrow> social_account \<Rightarrow> pipeline_env \<Rightarrow> api_state
     \<Rightarrow> (js_error + publish_result) \<times> api_state" where
  "publishToFacebook_try post account env st =
     (case validateToken (access_token account) (t_validate env) (r_validate env) st of
        (Inl e, st1) \<Rightarrow> (Inl e, st1)
      | (Inr valid, st1) \<Rightarrow>
          if \<not> valid
          then (Inl (PostQueueError ''Facebook access token is invalid'' INVALID_TOKEN True), st1)
          else (case (case firstMedia post of
                        Some url \<Rightarrow>
                          publishPagePhoto (account_id account) (access_token account)
                            (content post) url (t_first env) (r_first env) st1
                      | None \<Rightarrow>
                          publishPagePost (account_id account) (access_token account)
                            (content post) (t_first env) (r_first env) st1) of
                  (Inl e, st2) \<Rightarrow> (Inl e, st2)
                | (Inr reply, st2) \<Rightarrow>
                    (Inr \<lparr>result_platform_post_id =
                            firstTruthy (reply_id reply) (reply_post_id reply),
                          result_platform = ''facebook''\<rparr>, st2)))"

definition publishToFacebook ::
  "scheduled_post \<Rightarrow> social_account \<Rightarrow> pipeline_env \<Rightarrow> api_state
     \<Rightarrow> (js_error + publish_result) \<times> api_state" where
  "publishToFacebook post account env st =
     (case publishToFacebook_try post account env st of
        (Inl e, st1) \<Rightarrow> (Inl (classify e), st1)
      | (Inr r, st1) \<Rightarrow> (Inr r, st1))"

definition publishToInstagram_try ::
  "scheduled_post \<Rightarrow> social_account \<Rightarrow> pipeline_env \<Rightarrow> api_state
     \<Rightarrow> (js_error + publish_result) \<times> api_state" where
  "publishToInstagram_try post account env st =
     (case firstMedia post of
        None \<Rightarrow> (Inl (PostQueueError ''Instagram posts require media'' INVALID_CONTENT False), st)
      | Some url \<Rightarrow>
     (case validateToken (access_token account) (t_validate env) (r_validate env) st of
        (Inl e, st1) \<Rightarrow> (Inl e, st1)
      | (Inr valid, st1) \<Rightarrow>
          if \<not> valid
          then (Inl (PostQueueError ''Instagram access token is invalid'' INVALID_TOKEN True), st1)
          else (case createInstagramPost (account_id account) (access_token account)
                       url (content post) (t_first env) (r_first env) st1 of
                  (Inl e, st2) \<Rightarrow> (Inl e, st2)
                | (Inr creationResult, st2) \<Rightarrow>
                    (case publishInstagramPost (account_id account) (reply_id creationResult)
                            (access_token account) (t_second env) (r_second env) st2 of
                       (Inl e, st3) \<Rightarrow> (Inl e, st3)
                     | (Inr publishReply, st3) \<Rightarrow>
                         (Inr \<lparr>result_platform_post_id = reply_id publishReply,
                               result_platform = ''instagram''\<rparr>, st3)))))"

definition publishToInstagram ::
  "scheduled_post \<Rightarrow> social_account \<Rightarrow> pipeline_env \<Rightarrow> api_state
     \<Rightarrow> (js_error + publish_result) \<times> api_state" where
  "publishToInstagram post account env st =
     (case publishToInstagram_try post account env st of
        (Inl e, st1) \<Rightarrow> (Inl (classify e), st1)
      | (Inr r, st1) \<Rightarrow> (Inr r, st1))"

text \<open>
  \<^verbatim>\<open>publishPost(post)\<close>: the dispatch on the account's platform. It runs after
  \<open>validatePost\<close>, so the account is there; reading the platform of a missing account
  is a \<^verbatim>\<open>TypeError\<close>.
\<close>

definition publishPost ::
  "scheduled_post \<Rightarrow> pipeline_env \<Rightarrow> api_state \<Rightarrow> (js_error + publish_result) \<times> api_state" where
  "publishPost post env st =
     (case social_accounts post of
        None \<Rightarrow> (Inl (OtherError ''Cannot read properties of null''), st)
      | Some account \<Rightarrow>
          if platform account = ''facebook'' then publishToFacebook post account env st
          else if platform account = ''instagram'' then publishToInstagram post account env st
          else (Inl (PostQueueError (''Unsupported platform: '' @ platform account) UNKNOWN False), st))"

section \<open>One post's pipeline\<close>

text \<open>
  \<^verbatim>\<open>processPost(post)\<close>: \<open>post\<close> is the row as the due-post query returned it; the
  pipeline reads its fields from that snapshot and writes to the database by id. The
  \<^verbatim>\<open>try\<close> block is \<open>processPost_try\<close>, the \<^verbatim>\<open>catch\<close> block \<open>processPost_catch\<close>: it
  writes the outcome of the failure and throws again (the error it caught, or the one the
  write threw).
\<close>

definition processPost_try ::
  "scheduled_post \<Rightarrow> pipeline_env \<Rightarrow> database \<times> api_state
     \<Rightarrow> (js_error + publish_result) \<times> database \<times> api_state" where
  "processPost_try post env w =
     (case w of (db, st) \<Rightarrow>
      (case updatePostStatus (post_id post) PROCESSING noUpdates (t_processing env) db of
         (Inl e, db1) \<Rightarrow> (Inl e, db1, st)
       | (Inr u, db1) \<Rightarrow>
           (case validatePost post of
              Inl e \<Rightarrow> (Inl e, db1, st)
            | Inr u \<Rightarrow>
                (case publishPost post env st of
                   (Inl e, st1) \<Rightarrow> (Inl e, db1, st1)
                 | (Inr result, st1) \<Rightarrow>
                     (case updatePostStatus (post_id post) POSTED
                             (noUpdates\<lparr>set_platform_post_id :=
                                           map_option Some (result_platform_post_id result),
                                        set_error_message := Some None\<rparr>)
                             (t_posted env) db1 of
                        (Inl e, db2) \<Rightarrow> (Inl e, db2, st1)
                      | (Inr u, db2) \<Rightarrow> (Inr result, db2, st1))))))"

definition processPost_catch ::
  "scheduled_post \<Rightarrow> js_error \<Rightarrow> pipeline_env \<Rightarrow> database \<Rightarrow> js_error \<times> database" where
  "processPost_catch post error env db =
     (if shouldRetryPost post error
      then (case scheduleRetry post error (t_failure env) db of
              (Inl e, db1) \<Rightarrow> (e, db1)
            | (Inr u, db1) \<Rightarrow> (error, db1))
      else (case updatePostStatus (post_id post) FAILED
                   (noUpdates\<lparr>set_error_message := Some (Some (message error))\<rparr>)
                   (t_failure env) db of
              (Inl e, db1) \<Rightarrow> (e, db1)
            | (Inr u, db1) \<Rightarrow> (error, db1)))"

definition processPost ::
  "scheduled_post \<Rightarrow> pipeline_env \<Rightarrow> database \<times> api_state
     \<Rightarrow> (js_error + publish_result) \<times> database \<times> api_state" where
  "processPost post env w =
     (case processPost_try post env w of
        (Inr result, db1, st1) \<Rightarrow> (Inr result, db1, st1)
      | (Inl error, db1, st1) \<Rightarrow>
          (case processPost_catch post error env db1 of (e, db2) \<Rightarrow> (Inl e, db2, st1)))"

section \<open>The queue pass and its guard\<close>

text \<open>
  \<^verbatim>\<open>getDuePosts()\<close>, given what its query came back with: an exception, or the pair
  \<^verbatim>\<open>{ data, error }\<close>. An error is thrown and caught inside the method, which then
  returns the empty list, as it does for an exception of the query itself.
\<close>

datatype 'a query_outcome = QueryRejected string | QueryAnswer "'a option" "string option"

definition getDuePosts :: "scheduled_post list query_outcome \<Rightarrow> scheduled_post list" where
  "getDuePosts q =
     (case q of
        QueryRejected m \<Rightarrow> []
      | QueryAnswer rows (Some err) \<Rightarrow> []
      | QueryAnswer rows None \<Rightarrow> orElse rows [])"

record PostQueueProcessor =
  isProcessing :: bool

text \<open>
  \<^verbatim>\<open>processQueue()\<close> runs in two parts. The first, up to the first \<^verbatim>\<open>await\<close>, is
  \<open>processQueue_enter\<close>: it either returns at once (the guard is held) or takes the guard.
  The second, \<open>processQueue_resume\<close>, is everything after \<^verbatim>\<open>getDuePosts()\<close> has
  answered: the pipelines of the due posts (\<open>settle\<close> gives how each one settles; a
  rejected one becomes \<^verbatim>\<open>null\<close>) and the \<^verbatim>\<open>finally\<close> block. While the pass awaits
  its pipelines other calls of \<^verbatim>\<open>processQueue()\<close> may run; the pass itself reads and
  writes the guard nowhere but in these two parts.
\<close>

datatype tick_outcome = Skipped | Entered

definition processQueue_enter :: "PostQueueProcessor \<Rightarrow> tick_outcome \<times> PostQueueProcessor" where
  "processQueue_enter p =
     (if isProcessing p then (Skipped, p) else (Entered, p\<lparr>isProcessing := True\<rparr>))"

definition processQueue_resume ::
  "scheduled_post list \<Rightarrow> (scheduled_post \<Rightarrow> js_error + publish_result) \<Rightarrow> PostQueueProcessor
     \<Rightarrow> publish_result option list \<times> PostQueueProcessor" where
  "processQueue_resume duePosts settle p =
     (let results =
            (if length duePosts = 0 then []
             else map (\<lambda>post. case settle post of Inl e \<Rightarrow> None | Inr r \<Rightarrow> Some r) duePosts)
      in (results, p\<lparr>isProcessing := False\<rparr>))"

text \<open>
  The scheduler as a transition system. A \<open>Tick\<close> is a call of \<^verbatim>\<open>processQueue()\<close> (by
  the timer, at start, or forced); \<open>PassEnds\<close> is the moment the pass in flight resumes
  after its fetch, the query having come back with \<open>q\<close>, and runs to its end.
  \<open>inFlight\<close> counts the passes that have entered and not ended; it is not a variable of
  the program. A pass that is not in flight cannot end: such an event changes nothing.
\<close>

datatype event =
    Tick
  | PassEnds "scheduled_post list query_outcome" "scheduled_post \<Rightarrow> js_error + publish_result"

record scheduler =
  processor :: PostQueueProcessor
  inFlight :: nat

definition step :: "scheduler \<Rightarrow> event \<Rightarrow> scheduler" where
  "step s e =
     (case e of
        Tick \<Rightarrow>
          (case processQueue_enter (processor s) of
             (Skipped, p) \<Rightarrow> s\<lparr>processor := p\<rparr>
           | (Entered, p) \<Rightarrow> s\<lparr>processor := p, inFlight := inFlight s + 1\<rparr>)
      | PassEnds q settle \<Rightarrow>
          if inFlight s = 0 then s
          else s\<lparr>processor := snd (processQueue_resume (getDuePosts q) settle (processor s)),
                 inFlight := inFlight s - 1\<rparr>)"

definition initial :: scheduler where
  "initial = \<lparr>processor = \<lparr>isProcessing = False\<rparr>, inFlight = 0\<rparr>"

definition run :: "event list \<Rightarrow> scheduler" where
  "run es = foldl step initial es"

text \<open>The guard is held exactly while one pass is in flight, and never more than one is.\<close>

definition guardInv :: "scheduler \<Rightarrow> bool" where
  "guardInv s = (inFlight s \<le> 1 \<and> (isProcessing (processor s) \<longleftrightarrow> inFlight s = 1))"

section \<open>Cancelling a post\<close>

text \<open>
  \<^verbatim>\<open>postQueue.cancelPost(postId, userId)\<close> awaits twice: it reads the user's posts (the
  first 50 by \<open>scheduled_for\<close>) and checks the one it finds (\<open>cancelPost_check\<close>), then
  writes by id (\<open>cancelPost_write\<close>); the result of the write is not looked at. Between
  the two, other tasks run: \<open>others\<close> is what they do to the database in that time.
  \<open>cancelPost\<close> is the call with nothing in between.
\<close>

definition cancelPost_check :: "nat \<Rightarrow> nat \<Rightarrow> database \<Rightarrow> js_error + scheduled_post" where
  "cancelPost_check postId userId db =
     (case find (\<lambda>p. post_id p = postId) (fst (getScheduledPosts userId 50 db)) of
        None \<Rightarrow> Inl (PostQueueError ''Post not found or access denied'' MISSING_ACCOUNT False)
      | Some post \<Rightarrow>
          if status post = POSTED
          then Inl (PostQueueError ''Cannot cancel already posted content'' INVALID_CONTENT False)
          else Inr post)"

definition cancelPost_write :: "nat \<Rightarrow> database \<Rightarrow> database" where
  "cancelPost_write postId db =
     snd (updateScheduledPost postId
       (noUpdates\<lparr>set_status := Some CANCELLED,
          set_error_message := Some (Some ''Cancelled by user'')\<rparr>) db)"

definition cancelPost_during ::
  "(database \<Rightarrow> database) \<Rightarrow> nat \<Rightarrow> nat \<Rightarrow> database \<Rightarrow> (js_error + bool) \<times> database" where
  "cancelPost_during others postId userId db =
     (case cancelPost_check postId userId db of
        Inl e \<Rightarrow> (Inl e, others db)
      | Inr post \<Rightarrow> (Inr True, cancelPost_write postId (others db)))"

definition cancelPost :: "nat \<Rightarrow> nat \<Rightarrow> database \<Rightarrow> (js_error + bool) \<times> database" where
  "cancelPost postId userId db = cancelPost_during (\<lambda>d. d) postId userId db"

section \<open>Sample data\<close>

text \<open>A page account, a due text post of user 7, and a run in which every request succeeds.\<close>

definition demoAccount :: social_account where
  "demoAccount =
     \<lparr>platform = ''facebook'', account_id = ''page-1'', access_token = Some ''token-1'',
      is_active = True\<rparr>"

definition demoPost :: scheduled_post where
  "demoPost =
     \<lparr>post_id = 1, user_id = 7, social_account_id = 3, content = Some [0x48, 0x69],
      media_urls = Some [], hashtags = [], location = None, scheduled_for = 1000,
      status = SCHEDULED, retry_count = Some 0, error_message = None,
      platform_post_id = None, updated_at = 0, social_accounts = Some demoAccount\<rparr>"

definition demoDb :: database where
  "demoDb = \<lparr>scheduled_posts = [demoPost], online = True\<rparr>"

definition demoReply :: graph_reply where
  "demoReply =
     \<lparr>reply_id = Some ''fb-100'', reply_post_id = None, reply_error_message = None,
      reply_error_code = None\<rparr>"

definition demoEnv :: pipeline_env where
  "demoEnv =
     \<lparr>t_processing = 2000, t_validate = 2001, r_validate = FetchResponse True (Some True),
      t_first = 2002, r_first = FetchResponse True demoReply,
      t_second = 2003, r_second = FetchResponse True demoReply,
      t_posted = 2004, t_failure = 2005\<rparr>"

definition igAccount :: social_account where
  "igAccount = demoAccount\<lparr>platform := ''instagram'', account_id := ''ig-1''\<rparr>"

definition igPost :: scheduled_post where
  "igPost = demoPost\<lparr>social_accounts := Some igAccount\<rparr>"

text \<open>
  The database while the pipeline of post 1 waits for the network in that run (it has
  written \<open>PROCESSING\<close>), and the success write that pipeline ends with.
\<close>

definition midDb :: database where
  "midDb = demoDb\<lparr>scheduled_posts := [demoPost\<lparr>status := PROCESSING, updated_at := 2000\<rparr>]\<rparr>"

definition postedWrite :: "database \<Rightarrow> database" where
  "postedWrite db =
     snd (updatePostStatus 1 POSTED
       (noUpdates\<lparr>set_platform_post_id := Some (Some ''fb-100''), set_error_message := Some None\<rparr>)
       2004 db)"

text \<open>The same run, with the introspection answering that the token is not valid.\<close>

definition badTokenEnv :: pipeline_env where
  "badTokenEnv = demoEnv\<lparr>r_validate := FetchResponse True (Some False)\<rparr>"

text \<open>An Instagram post with an image, and a gate with room for four requests.\<close>

definition igMediaPost :: scheduled_post where
  "igMediaPost = igPost\<lparr>media_urls := Some [''https://cdn.example/1.jpg'']\<rparr>"

definition smallApi :: api_state where
  "smallApi = \<lparr>tracker = \<lparr>requests = 0, resetTime = 3600000, maxRequests = 4\<rparr>, wire = []\<rparr>"

definition demoApi :: api_state where
  "demoApi = \<lparr>tracker = \<lparr>requests = 0, resetTime = 3600000, maxRequests = 200\<rparr>, wire = []\<rparr>"

section \<open>Properties of the rate gate\<close>

lemma ceilSeconds_ceiling: "ceilSeconds ms = \<lceil>real_of_int ms / 1000\<rceil>"
proof -
  have "\<lceil>real_of_int ms / 1000\<rceil> = - \<lfloor>- (real_of_int ms / 1000)\<rfloor>"
    by (simp add: ceiling_def)
  also have "- (real_of_int ms / 1000) = real_of_int (- ms) / real_of_int 1000"
    by simp
  also have "\<lfloor>real_of_int (- ms) / real_of_int 1000\<rfloor> = (- ms) div 1000"
    by (rule floor_divide_of_int_eq)
  finally show ?thesis
    by (simp add: ceilSeconds_def)
qed

lemma checkLimit_grant:
  assumes "now \<le> resetTime t" "requests t < maxRequests t"
  shows "checkLimit now t = (Inr (), t\<lparr>requests := requests t + 1\<rparr>)"
  using assms by (simp add: checkLimit_def)

lemma checkLimit_deny:
  assumes "now \<le> resetTime t" "maxRequests t \<le> requests t"
  shows "checkLimit now t =
    (Inl (RateLimitError (rateLimitMessage (ceilSeconds (resetTime t - now)))
       (ceilSeconds (resetTime t - now))), t)"
  using assms by (simp add: checkLimit_def Let_def)

lemma checkLimits_grants:
  assumes "\<forall>n\<in>set nows. n \<le> resetTime t"
    and "requests t + int (length nows) \<le> maxRequests t"
  shows "checkLimits nows t =
    (replicate (length nows) (Inr ()), t\<lparr>requests := requests t + int (length nows)\<rparr>)"
  using assms
proof (induction nows arbitrary: t)
  case Nil
  then show ?case by simp
next
  case (Cons now nows)
  let ?t1 = "t\<lparr>requests := requests t + 1\<rparr>"
  have step: "checkLimit now t = (Inr (), ?t1)"
    using Cons.prems by (intro checkLimit_grant) auto
  have "checkLimits nows ?t1 =
    (replicate (length nows) (Inr ()), ?t1\<lparr>requests := requests ?t1 + int (length nows)\<rparr>)"
    using Cons.prems by (intro Cons.IH) auto
  with step show ?case by (simp add: add.assoc add.commute)
qed

lemma checkLimits_append:
  "checkLimits (xs @ ys) t =
     (let (rs, t1) = checkLimits xs t; (rs', t2) = checkLimits ys t1 in (rs @ rs', t2))"
  by (induction xs arbitrary: t) (auto split: prod.splits)

lemma checkLimit_roll:
  assumes "resetTime t < now"
  shows "checkLimit now t = checkLimit now (t\<lparr>requests := 0, resetTime := now + windowLength\<rparr>)"
  using assms by (simp add: checkLimit_def windowLength_def)

lemma checkLimit_roll_result:
  assumes "resetTime t < now"
  shows "checkLimit now t =
    (if 0 < maxRequests t
     then (Inr (), t\<lparr>requests := 1, resetTime := now + windowLength\<rparr>)
     else (Inl (RateLimitError (rateLimitMessage (ceilSeconds windowLength))
             (ceilSeconds windowLength)),
           t\<lparr>requests := 0, resetTime := now + windowLength\<rparr>))"
  using assms by (simp add: checkLimit_def Let_def)

text \<open>
  C1. With \<open>maxRequests = M\<close> and a window that starts with the counter at 0, \<open>M + 1\<close>
  permission checks at clock readings inside the window (none past \<open>resetTime\<close>) grant
  exactly the first \<open>M\<close> and deny the last one with a \<open>RateLimitError\<close> whose
  \<open>retryAfter\<close> is \<open>ceil((resetTime - now) / 1000)\<close>. A check whose clock reading is
  past \<open>resetTime\<close> behaves as the same check on the tracker with the counter set to 0
  and \<open>resetTime\<close> set to \<open>now + windowLength\<close>: the roll comes before the comparison
  of the counter with \<open>maxRequests\<close>, and it is kept whatever the comparison says.
\<close>

theorem rate_window_correct:
  fixes M :: nat
  shows "(requests t = 0 \<and> maxRequests t = int M \<and> length nows = M \<and>
          (\<forall>n\<in>set nows. n \<le> resetTime t) \<and> now' \<le> resetTime t \<longrightarrow>
            fst (checkLimits (nows @ [now']) t) =
              replicate M (Inr ()) @
              [Inl (RateLimitError (rateLimitMessage \<lceil>real_of_int (resetTime t - now') / 1000\<rceil>)
                 \<lceil>real_of_int (resetTime t - now') / 1000\<rceil>)] \<and>
            requests (snd (checkLimits (nows @ [now']) t)) = int M \<and>
            resetTime (snd (checkLimits (nows @ [now']) t)) = resetTime t) \<and>
         (resetTime s < now \<longrightarrow>
            checkLimit now s =
              checkLimit now (s\<lparr>requests := 0, resetTime := now + windowLength\<rparr>) \<and>
            resetTime (snd (checkLimit now s)) = now + windowLength \<and>
            requests (snd (checkLimit now s)) = (if 0 < maxRequests s then 1 else 0))"
proof (intro conjI impI)
  assume a: "requests t = 0 \<and> maxRequests t = int M \<and> length nows = M \<and>
          (\<forall>n\<in>set nows. n \<le> resetTime t) \<and> now' \<le> resetTime t"
  let ?t1 = "t\<lparr>requests := requests t + int (length nows)\<rparr>"
  have grants: "checkLimits nows t = (replicate (length nows) (Inr ()), ?t1)"
    using a by (intro checkLimits_grants) auto
  have deny: "checkLimit now' ?t1 =
    (Inl (RateLimitError (rateLimitMessage (ceilSeconds (resetTime ?t1 - now')))
       (ceilSeconds (resetTime ?t1 - now'))), ?t1)"
    using a by (intro checkLimit_deny) auto
  have run: "checkLimits (nows @ [now']) t =
    (replicate M (Inr ()) @
       [Inl (RateLimitError (rateLimitMessage (ceilSeconds (resetTime t - now')))
          (ceilSeconds (resetTime t - now')))], ?t1)"
    using a grants deny by (simp add: checkLimits_append)
  show "fst (checkLimits (nows @ [now']) t) =
      replicate M (Inr ()) @
      [Inl (RateLimitError (rateLimitMessage \<lceil>real_of_int (resetTime t - now') / 1000\<rceil>)
         \<lceil>real_of_int (resetTime t - now') / 1000\<rceil>)]"
    using run by (simp add: ceilSeconds_ceiling)
  show "requests (snd (checkLimits (nows @ [now']) t)) = int M"
    using run a by simp
  show "resetTime (snd (checkLimits (nows @ [now']) t)) = resetTime t"
    using run by simp
next
  assume "resetTime s < now"
  then show "checkLimit now s =
      checkLimit now (s\<lparr>requests := 0, resetTime := now + windowLength\<rparr>)"
    by (rule checkLimit_roll)
next
  assume "resetTime s < now"
  then show "resetTime (snd (checkLimit now s)) = now + windowLength"
    by (simp add: checkLimit_roll_result)
next
  assume "resetTime s < now"
  then show "requests (snd (checkLimit now s)) = (if 0 < maxRequests s then 1 else 0)"
    by (simp add: checkLimit_roll_result)
qed

theorem rate_window_correct_witness:
  "fst (checkLimits [100, 250, 1500]
      \<lparr>requests = 0, resetTime = 4000, maxRequests = 2\<rparr>) =
     [Inr (), Inr (), Inl (RateLimitError (rateLimitMessage 3) 3)] \<and>
   checkLimit 5000 \<lparr>requests = 2, resetTime = 4000, maxRequests = 2\<rparr> =
     (Inr (), \<lparr>requests = 1, resetTime = 5000 + windowLength, maxRequests = 2\<rparr>)"
proof -
  let ?t = "\<lparr>requests = 0, resetTime = 4000, maxRequests = 2\<rparr>"
  let ?s = "\<lparr>requests = 2, resetTime = 4000, maxRequests = 2\<rparr>"
  have h: "requests ?t = 0 \<and> maxRequests ?t = int 2 \<and> length [100, 250::int] = 2 \<and>
          (\<forall>n\<in>set [100, 250]. n \<le> resetTime ?t) \<and> 1500 \<le> resetTime ?t"
    by simp
  have k: "resetTime ?s < 5000" by simp
  note th = rate_window_correct [of ?t 2 "[100, 250]" 1500 ?s 5000]
  from th [THEN conjunct1, THEN mp, OF h] have a: "fst (checkLimits ([100, 250] @ [1500]) ?t) =
              replicate 2 (Inr ()) @
              [Inl (RateLimitError (rateLimitMessage \<lceil>real_of_int (resetTime ?t - 1500) / 1000\<rceil>)
                 \<lceil>real_of_int (resetTime ?t - 1500) / 1000\<rceil>)]"
    by (elim conjE)
  have c: "\<lceil>real_of_int (4000 - 1500) / 1000\<rceil> = (3::int)"
    by (simp add: ceiling_divide_eq_div)
  from th [THEN conjunct2, THEN mp, OF k] have b: "checkLimit 5000 ?s =
              checkLimit 5000 (?s\<lparr>requests := 0, resetTime := 5000 + windowLength\<rparr>)"
    by (elim conjE)
  from a c have a': "fst (checkLimits [100, 250, 1500] ?t) =
     [Inr (), Inr (), Inl (RateLimitError (rateLimitMessage 3) 3)]"
    by (simp add: numeral_2_eq_2)
  from b have b': "checkLimit 5000 ?s = (Inr (), \<lparr>requests = 1, resetTime = 5000 + windowLength, maxRequests = 2\<rparr>)"
    by (simp add: checkLimit_def windowLength_def)
  from a' b' show ?thesis by (rule conjI)
qed

section \<open>Properties of the persistence model and of trimming\<close>

lemma filter_single_find:
  "filter P xs = [r] \<Longrightarrow> find P xs = Some r"
  by (induction xs) (auto split: if_splits)

lemma filter_single_find_map:
  assumes "filter P xs = [r]" and "\<And>x. P (f x) = P x"
  shows "find P (map (\<lambda>x. if P x then f x else x) xs) = Some (f r)"
  using assms by (induction xs) (auto split: if_splits)

lemma post_id_applyUpdates [simp]: "post_id (applyUpdates u r) = post_id r"
  by (simp add: applyUpdates_def)

lemma updateScheduledPost_stored:
  assumes "stored db postId r"
  shows "updateScheduledPost postId u db =
    ((Some (applyUpdates u r), None),
     db\<lparr>scheduled_posts :=
          map (\<lambda>x. if post_id x = postId then applyUpdates u x else x) (scheduled_posts db)\<rparr>)"
  using assms by (simp add: updateScheduledPost_def stored_def)

lemma getRow_updated:
  assumes "stored db postId r"
  shows "getRow (snd (updateScheduledPost postId u db)) postId = Some (applyUpdates u r)"
proof -
  have "filter (\<lambda>x. post_id x = postId) (scheduled_posts db) = [r]"
    using assms by (simp add: stored_def)
  then have "find (\<lambda>x. post_id x = postId)
      (map (\<lambda>x. if post_id x = postId then applyUpdates u x else x) (scheduled_posts db))
    = Some (applyUpdates u r)"
    by (rule filter_single_find_map) simp
  then show ?thesis
    using assms by (simp add: updateScheduledPost_stored getRow_def)
qed

lemma stored_updated:
  assumes "stored db postId r"
  shows "stored (snd (updateScheduledPost postId u db)) postId (applyUpdates u r)"
proof -
  have f: "filter (\<lambda>x. post_id x = postId) (scheduled_posts db) = [r]"
    using assms by (simp add: stored_def)
  have "filter (\<lambda>x. post_id x = postId)
      (map (\<lambda>x. if post_id x = postId then applyUpdates u x else x) xs)
    = map (applyUpdates u) (filter (\<lambda>x. post_id x = postId) xs)" for xs
    by (induction xs) auto
  with f show ?thesis
    using assms by (simp add: updateScheduledPost_stored) (simp add: stored_def)
qed

lemma dropWhile_all_iff: "(\<forall>x\<in>set (dropWhile P s). P x) \<longleftrightarrow> dropWhile P s = []"
proof
  assume a: "\<forall>x\<in>set (dropWhile P s). P x"
  show "dropWhile P s = []"
  proof (rule ccontr)
    assume n: "dropWhile P s \<noteq> []"
    then have "\<not> P (hd (dropWhile P s))" by (rule hd_dropWhile)
    moreover have "hd (dropWhile P s) \<in> set (dropWhile P s)" using n by simp
    ultimately show False using a by blast
  qed
qed (auto dest: set_dropWhileD)

lemma trim_empty_iff: "trim s = [] \<longleftrightarrow> list_all isWhiteSpace s"
  by (simp add: trim_def dropWhile_eq_Nil_conv dropWhile_all_iff list_all_iff)


section \<open>Validation\<close>

lemma trim_demo: "trim [0x48, 0x69] = [0x48, 0x69]"
  by (simp add: trim_def isWhiteSpace_def)

lemma trim_spaces: "trim [0x20, 0x09, 0xA0] = []"
  by (simp add: trim_def isWhiteSpace_def)

text \<open>
  C7. \<open>validatePost\<close> applies its four rules in order and stops at the first one that
  fails: no account, then an inactive account (both \<open>MISSING_ACCOUNT\<close>), then content
  that is missing or empty once trimmed (\<open>INVALID_CONTENT\<close>), then a missing or empty
  access token (\<open>INVALID_TOKEN\<close>, the only one flagged retryable). When all four hold it
  returns normally. It is a function of the post alone: it reads no state and writes none.
\<close>

theorem validatePost_rules:
  "(social_accounts post = None \<longrightarrow>
      validatePost post = Inl (PostQueueError ''Social account not found'' MISSING_ACCOUNT False)) \<and>
   (social_accounts post = Some a \<and> \<not> is_active a \<longrightarrow>
      validatePost post = Inl (PostQueueError ''Social account is inactive'' MISSING_ACCOUNT False)) \<and>
   (social_accounts post = Some a \<and> is_active a \<and>
    (content post = None \<or> (\<exists>c. content post = Some c \<and> trim c = [])) \<longrightarrow>
      validatePost post = Inl (PostQueueError ''Post content is empty'' INVALID_CONTENT False)) \<and>
   (social_accounts post = Some a \<and> is_active a \<and> content post = Some c \<and> trim c \<noteq> [] \<and>
    (access_token a = None \<or> access_token a = Some []) \<longrightarrow>
      validatePost post = Inl (PostQueueError ''Access token missing'' INVALID_TOKEN True)) \<and>
   (social_accounts post = Some a \<and> is_active a \<and> content post = Some c \<and> trim c \<noteq> [] \<and>
    access_token a = Some tok \<and> tok \<noteq> [] \<longrightarrow>
      validatePost post = Inr ())"
  by (auto simp: validatePost_def blank_def trimmed_def falsy_def split: option.splits)

theorem validatePost_rules_witness:
  "validatePost (demoPost\<lparr>social_accounts := None\<rparr>) =
     Inl (PostQueueError ''Social account not found'' MISSING_ACCOUNT False) \<and>
   validatePost (demoPost\<lparr>social_accounts := Some (demoAccount\<lparr>is_active := False\<rparr>)\<rparr>) =
     Inl (PostQueueError ''Social account is inactive'' MISSING_ACCOUNT False) \<and>
   validatePost (demoPost\<lparr>content := Some [0x20, 0x09, 0xA0]\<rparr>) =
     Inl (PostQueueError ''Post content is empty'' INVALID_CONTENT False) \<and>
   validatePost (demoPost\<lparr>social_accounts := Some (demoAccount\<lparr>access_token := Some []\<rparr>)\<rparr>) =
     Inl (PostQueueError ''Access token missing'' INVALID_TOKEN True) \<and>
   validatePost demoPost = Inr ()"
proof (intro conjI)
  show "validatePost (demoPost\<lparr>social_accounts := None\<rparr>) =
     Inl (PostQueueError ''Social account not found'' MISSING_ACCOUNT False)"
    using validatePost_rules [of "demoPost\<lparr>social_accounts := None\<rparr>", THEN conjunct1]
    by simp
  show "validatePost (demoPost\<lparr>social_accounts := Some (demoAccount\<lparr>is_active := False\<rparr>)\<rparr>) =
     Inl (PostQueueError ''Social account is inactive'' MISSING_ACCOUNT False)"
    using validatePost_rules
      [of "demoPost\<lparr>social_accounts := Some (demoAccount\<lparr>is_active := False\<rparr>)\<rparr>"
          "demoAccount\<lparr>is_active := False\<rparr>", THEN conjunct2, THEN conjunct1]
    by simp
  show "validatePost (demoPost\<lparr>content := Some [0x20, 0x09, 0xA0]\<rparr>) =
     Inl (PostQueueError ''Post content is empty'' INVALID_CONTENT False)"
    using validatePost_rules
      [of "demoPost\<lparr>content := Some [0x20, 0x09, 0xA0]\<rparr>" demoAccount,
       THEN conjunct2, THEN conjunct2, THEN conjunct1]
    by (simp add: demoPost_def demoAccount_def trim_spaces)
  show "validatePost (demoPost\<lparr>social_accounts := Some (demoAccount\<lparr>access_token := Some []\<rparr>)\<rparr>) =
     Inl (PostQueueError ''Access token missing'' INVALID_TOKEN True)"
    using validatePost_rules
      [of "demoPost\<lparr>social_accounts := Some (demoAccount\<lparr>access_token := Some []\<rparr>)\<rparr>"
          "demoAccount\<lparr>access_token := Some []\<rparr>" "[0x48, 0x69]",
       THEN conjunct2, THEN conjunct2, THEN conjunct2, THEN conjunct1]
    by (simp add: demoPost_def demoAccount_def trim_demo)
  show "validatePost demoPost = Inr ()"
    using validatePost_rules
      [of demoPost demoAccount "[0x48, 0x69]" "''token-1''",
       THEN conjunct2, THEN conjunct2, THEN conjunct2, THEN conjunct2]
    by (simp add: demoPost_def demoAccount_def trim_demo)
qed


section \<open>Retry policy and status writes\<close>

lemma updatePostStatus_stored:
  assumes "stored db postId r"
  shows "updatePostStatus postId st additional now db =
    (Inr (), snd (updateScheduledPost postId
       (spread (noUpdates\<lparr>set_status := Some st, set_updated_at := Some now\<rparr>) additional) db))"
  using assms by (simp add: updatePostStatus_def updateScheduledPost_stored)

lemma updatePostStatus_offline:
  assumes "\<not> online db"
  shows "updatePostStatus postId st additional now db =
    (Inl (PostQueueError ''Failed to update post status: Failed to fetch'' UNKNOWN False), db)"
  using assms by (simp add: updatePostStatus_def updateScheduledPost_def)

lemma nextDelay_table:
  "nextDelay 1 = Some 30000" "nextDelay 2 = Some 60000" "nextDelay 3 = Some 300000"
  "4 \<le> n \<Longrightarrow> nextDelay n = Some 900000"
  by (simp_all add: nextDelay_def retryDelays_def Let_def min_def)


lemma shouldRetryPost_iff:
  "\<not> shouldRetryPost post error \<longleftrightarrow>
     (\<exists>m ty. error = PostQueueError m ty False) \<or>
     (\<exists>n. retry_count post = Some n \<and> 3 \<le> n) \<or>
     (\<exists>m r. error = PostQueueError m INVALID_CONTENT r)"
  by (cases error)
     (auto simp: shouldRetryPost_def retryCountOf_def orElse_def maxRetries_def
       split: option.splits)

text \<open>
  C2. \<open>shouldRetryPost\<close> answers no exactly when the error is a \<open>PostQueueError\<close>
  marked not retryable, or the post's field \<open>retry_count\<close> holds a number that has
  reached \<open>maxRetries = 3\<close>, or the error is a \<open>PostQueueError\<close> of type
  \<open>INVALID_CONTENT\<close>; in every other case, a missing retry count among them, it answers
  yes. So a post with retry count 3
  whose publish failed with a platform error other than an authorisation one (classified
  \<open>API_ERROR\<close>, retryable) is not rescheduled: when the write succeeds its row gets status
  \<open>FAILED\<close> and the error's message, and keeps its schedule and retry count.
\<close>

theorem shouldRetryPost_policy:
  "(\<not> shouldRetryPost post error \<longleftrightarrow>
      (\<exists>m ty. error = PostQueueError m ty False) \<or>
      (\<exists>n. retry_count post = Some n \<and> 3 \<le> n) \<or>
      (\<exists>m r. error = PostQueueError m INVALID_CONTENT r)) \<and>
   maxRetries = 3 \<and>
   (retry_count p = Some 3 \<and> c \<noteq> CodeStr ''OAuthException'' \<and> stored db (post_id p) row \<longrightarrow>
      classify (FacebookAPIError m c) = PostQueueError m API_ERROR True \<and>
      \<not> shouldRetryPost p (PostQueueError m API_ERROR True) \<and>
      fst (processPost_catch p (PostQueueError m API_ERROR True) env db) =
        PostQueueError m API_ERROR True \<and>
      getRow (snd (processPost_catch p (PostQueueError m API_ERROR True) env db)) (post_id p) =
        Some (row\<lparr>status := FAILED, error_message := Some m, updated_at := t_failure env\<rparr>))"
proof (intro conjI impI)
  show "\<not> shouldRetryPost post error \<longleftrightarrow>
      (\<exists>m ty. error = PostQueueError m ty False) \<or>
      (\<exists>n. retry_count post = Some n \<and> 3 \<le> n) \<or>
      (\<exists>m r. error = PostQueueError m INVALID_CONTENT r)"
    by (rule shouldRetryPost_iff)
  show "maxRetries = 3" by (simp add: maxRetries_def)
next
  assume a: "retry_count p = Some 3 \<and> c \<noteq> CodeStr ''OAuthException'' \<and> stored db (post_id p) row"
  then show "classify (FacebookAPIError m c) = PostQueueError m API_ERROR True"
    by (simp add: classify_def)
  let ?e = "PostQueueError m API_ERROR True"
  from a show no: "\<not> shouldRetryPost p ?e"
    by (simp add: shouldRetryPost_def retryCountOf_def orElse_def maxRetries_def)
  from a have st: "stored db (post_id p) row" by simp
  have run: "processPost_catch p ?e env db =
    (?e, snd (updateScheduledPost (post_id p)
       (spread (noUpdates\<lparr>set_status := Some FAILED, set_updated_at := Some (t_failure env)\<rparr>)
          (noUpdates\<lparr>set_error_message := Some (Some (message ?e))\<rparr>)) db))"
    using no by (simp add: processPost_catch_def updatePostStatus_stored [OF st])
  show "fst (processPost_catch p ?e env db) = ?e"
    by (simp add: run)
  show "getRow (snd (processPost_catch p ?e env db)) (post_id p) =
        Some (row\<lparr>status := FAILED, error_message := Some m, updated_at := t_failure env\<rparr>)"
    by (simp add: run getRow_updated [OF st])
       (simp add: applyUpdates_def spread_def noUpdates_def orElse_def)
qed


lemma stored_demo:
  "stored (demoDb\<lparr>scheduled_posts := [demoPost\<lparr>retry_count := rc\<rparr>]\<rparr>) 1
     (demoPost\<lparr>retry_count := rc\<rparr>)"
  by (simp add: stored_def demoDb_def demoPost_def)

theorem shouldRetryPost_policy_witness:
  "shouldRetryPost (demoPost\<lparr>retry_count := Some 2\<rparr>)
       (PostQueueError ''Failed to publish post'' API_ERROR True) \<and>
   shouldRetryPost (demoPost\<lparr>retry_count := None\<rparr>) (OtherError ''boom'') \<and>
   \<not> shouldRetryPost demoPost (PostQueueError ''Unsupported platform: x'' UNKNOWN False) \<and>
   \<not> shouldRetryPost demoPost (PostQueueError ''Post content is empty'' INVALID_CONTENT True) \<and>
   \<not> shouldRetryPost (demoPost\<lparr>retry_count := Some 3\<rparr>)
       (PostQueueError ''Failed to publish post'' API_ERROR True) \<and>
   getRow (snd (processPost_catch (demoPost\<lparr>retry_count := Some 3\<rparr>)
       (PostQueueError ''Failed to publish post'' API_ERROR True) demoEnv
       (demoDb\<lparr>scheduled_posts := [demoPost\<lparr>retry_count := Some 3\<rparr>]\<rparr>))) 1 =
     Some (demoPost\<lparr>retry_count := Some 3, status := FAILED,
             error_message := Some ''Failed to publish post'', updated_at := 2005\<rparr>)"
proof (intro conjI)
  show "shouldRetryPost (demoPost\<lparr>retry_count := Some 2\<rparr>)
       (PostQueueError ''Failed to publish post'' API_ERROR True)"
    using shouldRetryPost_policy [where post = "demoPost\<lparr>retry_count := Some 2\<rparr>"
        and error = "PostQueueError ''Failed to publish post'' API_ERROR True", THEN conjunct1]
    by simp
  show "shouldRetryPost (demoPost\<lparr>retry_count := None\<rparr>) (OtherError ''boom'')"
    using shouldRetryPost_policy [where post = "demoPost\<lparr>retry_count := None\<rparr>"
        and error = "OtherError ''boom''", THEN conjunct1]
    by simp
  show "\<not> shouldRetryPost demoPost (PostQueueError ''Unsupported platform: x'' UNKNOWN False)"
    using shouldRetryPost_policy [where post = demoPost
        and error = "PostQueueError ''Unsupported platform: x'' UNKNOWN False", THEN conjunct1]
    by simp
  show "\<not> shouldRetryPost demoPost
      (PostQueueError ''Post content is empty'' INVALID_CONTENT True)"
    using shouldRetryPost_policy [where post = demoPost
        and error = "PostQueueError ''Post content is empty'' INVALID_CONTENT True",
        THEN conjunct1]
    by auto
next
  let ?p = "demoPost\<lparr>retry_count := Some 3\<rparr>"
  let ?db = "demoDb\<lparr>scheduled_posts := [?p]\<rparr>"
  have h: "retry_count ?p = Some 3 \<and> CodeStr ''PUBLISH_FAILED'' \<noteq> CodeStr ''OAuthException'' \<and>
      stored ?db (post_id ?p) ?p"
    using stored_demo [of "Some 3"] by (simp add: demoPost_def)
  note th = shouldRetryPost_policy [where p = ?p and c = "CodeStr ''PUBLISH_FAILED''"
      and db = ?db and row = ?p and m = "''Failed to publish post''" and env = demoEnv,
      THEN conjunct2, THEN conjunct2, THEN mp, OF h]
  from th show "\<not> shouldRetryPost ?p (PostQueueError ''Failed to publish post'' API_ERROR True)"
    by simp
  from th show "getRow (snd (processPost_catch ?p
       (PostQueueError ''Failed to publish post'' API_ERROR True) demoEnv ?db)) 1 =
     Some (demoPost\<lparr>retry_count := Some 3, status := FAILED,
             error_message := Some ''Failed to publish post'', updated_at := 2005\<rparr>)"
    by (simp add: demoPost_def demoEnv_def)
qed






section \<open>The pipeline's success write\<close>

lemma stored_after_status:
  assumes "stored db postId r"
  shows "stored (snd (updatePostStatus postId st additional now db)) postId
    (applyUpdates (spread (noUpdates\<lparr>set_status := Some st, set_updated_at := Some now\<rparr>) additional) r)"
  using assms by (simp add: updatePostStatus_stored stored_updated)

text \<open>
  C10. When a pipeline succeeds, the row of the post ends with status \<open>POSTED\<close>, the
  clock reading of the write as \<open>updated_at\<close>, \<open>error_message\<close> null (whatever an earlier
  retry left there) and the post id the platform returned; every other column, among them
  the content, the media list, the retry count and the schedule, is as it was.
\<close>

theorem processPost_success_write:
  "processPost post env (db, api) = (Inr result, db', api') \<and> stored db (post_id post) row \<longrightarrow>
     getRow db' (post_id post) =
       Some (row\<lparr>status := POSTED, updated_at := t_posted env, error_message := None,
               platform_post_id :=
                 (case result_platform_post_id result of
                    None \<Rightarrow> platform_post_id row
                  | Some pid \<Rightarrow> Some pid)\<rparr>) \<and>
     (\<exists>row'. getRow db' (post_id post) = Some row' \<and>
        status row' = POSTED \<and> error_message row' = None \<and>
        (result_platform_post_id result = None \<or>
         platform_post_id row' = result_platform_post_id result) \<and>
        content row' = content row \<and> media_urls row' = media_urls row \<and>
        retry_count row' = retry_count row \<and> scheduled_for row' = scheduled_for row)"
proof (intro impI)
  assume a: "processPost post env (db, api) = (Inr result, db', api') \<and> stored db (post_id post) row"
  then have st: "stored db (post_id post) row" by simp
  define u1 where "u1 = spread (noUpdates\<lparr>set_status := Some PROCESSING,
          set_updated_at := Some (t_processing env)\<rparr>) noUpdates"
  define db1 where "db1 = snd (updateScheduledPost (post_id post) u1 db)"
  define u2 where "u2 = spread (noUpdates\<lparr>set_status := Some POSTED,
          set_updated_at := Some (t_posted env)\<rparr>)
       (noUpdates\<lparr>set_platform_post_id := map_option Some (result_platform_post_id result),
                    set_error_message := Some None\<rparr>)"
  define db2 where "db2 = snd (updateScheduledPost (post_id post) u2 db1)"
  have one: "updatePostStatus (post_id post) PROCESSING noUpdates (t_processing env) db = (Inr (), db1)"
    by (simp add: updatePostStatus_stored [OF st] db1_def u1_def)
  have st1: "stored db1 (post_id post) (applyUpdates u1 row)"
    unfolding db1_def by (rule stored_updated [OF st])
  have two: "updatePostStatus (post_id post) POSTED
       (noUpdates\<lparr>set_platform_post_id := map_option Some (result_platform_post_id result),
                    set_error_message := Some None\<rparr>) (t_posted env) db1 = (Inr (), db2)"
    by (simp add: updatePostStatus_stored [OF st1] db2_def u2_def)
  from a have "processPost_try post env (db, api) = (Inr result, db', api')"
    by (simp add: processPost_def split: sum.splits prod.splits)
  then have db': "db' = db2"
    by (simp add: processPost_try_def one two split: sum.splits prod.splits)
  have "getRow db2 (post_id post) = Some (applyUpdates u2 (applyUpdates u1 row))"
    unfolding db2_def by (rule getRow_updated [OF st1])
  then have row': "getRow db' (post_id post) =
       Some (row\<lparr>status := POSTED, updated_at := t_posted env, error_message := None,
               platform_post_id :=
                 (case result_platform_post_id result of
                    None \<Rightarrow> platform_post_id row
                  | Some pid \<Rightarrow> Some pid)\<rparr>)"
    by (simp add: db' u1_def u2_def applyUpdates_def spread_def noUpdates_def orElse_def
          split: option.splits)
  show "getRow db' (post_id post) =
       Some (row\<lparr>status := POSTED, updated_at := t_posted env, error_message := None,
               platform_post_id :=
                 (case result_platform_post_id result of
                    None \<Rightarrow> platform_post_id row
                  | Some pid \<Rightarrow> Some pid)\<rparr>) \<and>
     (\<exists>row'. getRow db' (post_id post) = Some row' \<and>
        status row' = POSTED \<and> error_message row' = None \<and>
        (result_platform_post_id result = None \<or>
         platform_post_id row' = result_platform_post_id result) \<and>
        content row' = content row \<and> media_urls row' = media_urls row \<and>
        retry_count row' = retry_count row \<and> scheduled_for row' = scheduled_for row)"
    by (auto simp: row' split: option.splits)
qed


lemma publishPost_demo:
  "publishPost (demoPost\<lparr>retry_count := rc, error_message := em\<rparr>) demoEnv demoApi =
     (Inr \<lparr>result_platform_post_id = Some ''fb-100'', result_platform = ''facebook''\<rparr>,
      \<lparr>tracker = \<lparr>requests = 2, resetTime = 3600000, maxRequests = 200\<rparr>,
       wire = [DebugToken (Some ''token-1''), FeedPost ''page-1'' (Some ''token-1'') [0x48, 0x69]]\<rparr>)"
  by (simp add: publishPost_def publishToFacebook_def publishToFacebook_try_def validateToken_def
      publishPagePost_def acquire_def checkLimit_def send_def graphResult_def firstMedia_def
      firstTruthy_def falsy_def trimmed_def trim_demo demoPost_def demoAccount_def demoEnv_def
      demoApi_def demoReply_def)

lemma processPost_demo:
  "fst (processPost (demoPost\<lparr>retry_count := rc, error_message := em\<rparr>) demoEnv
     (demoDb\<lparr>scheduled_posts := [demoPost\<lparr>retry_count := rc, error_message := em\<rparr>]\<rparr>, demoApi)) =
   Inr \<lparr>result_platform_post_id = Some ''fb-100'', result_platform = ''facebook''\<rparr>"
proof -
  let ?p = "demoPost\<lparr>retry_count := rc, error_message := em\<rparr>"
  have v: "validatePost ?p = Inr ()"
    by (simp add: validatePost_def blank_def trimmed_def trim_demo falsy_def demoPost_def
        demoAccount_def)
  have i: "post_id ?p = 1" by (simp add: demoPost_def)
  show ?thesis
    by (simp add: processPost_def processPost_try_def v publishPost_demo i updatePostStatus_def
        updateScheduledPost_def demoDb_def)
qed

theorem processPost_success_write_witness:
  "getRow (fst (snd (processPost
       (demoPost\<lparr>retry_count := Some 1, error_message := Some ''Retry 1: timeout''\<rparr>) demoEnv
       (demoDb\<lparr>scheduled_posts :=
          [demoPost\<lparr>retry_count := Some 1, error_message := Some ''Retry 1: timeout''\<rparr>]\<rparr>,
        demoApi)))) 1 =
     Some (demoPost\<lparr>retry_count := Some 1, status := POSTED, updated_at := 2004,
             error_message := None, platform_post_id := Some ''fb-100''\<rparr>)"
proof -
  let ?p = "demoPost\<lparr>retry_count := Some 1, error_message := Some ''Retry 1: timeout''\<rparr>"
  let ?db = "demoDb\<lparr>scheduled_posts := [?p]\<rparr>"
  let ?r = "\<lparr>result_platform_post_id = Some ''fb-100'', result_platform = ''facebook''\<rparr>"
  have "fst (processPost ?p demoEnv (?db, demoApi)) = Inr ?r"
    by (rule processPost_demo)
  then have run: "processPost ?p demoEnv (?db, demoApi) =
      (Inr ?r, fst (snd (processPost ?p demoEnv (?db, demoApi))),
       snd (snd (processPost ?p demoEnv (?db, demoApi))))"
    by (metis prod.collapse)
  have st: "stored ?db (post_id ?p) ?p"
    by (simp add: stored_def demoDb_def demoPost_def)
  from processPost_success_write [THEN mp, OF conjI [OF run st], THEN conjunct1]
  show ?thesis
    by (simp add: demoPost_def demoEnv_def)
qed


section \<open>The guard of the queue pass\<close>

lemma run_snoc: "run (es @ [e]) = step (run es) e"
  by (simp add: run_def)

lemma guardInv_initial: "guardInv initial"
  by (simp add: guardInv_def initial_def)

lemma guardInv_step: "guardInv s \<Longrightarrow> guardInv (step s e)"
  by (cases e) (auto simp: guardInv_def step_def processQueue_enter_def processQueue_resume_def Let_def)

lemma guardInv_run: "guardInv (run es)"
proof (induction es rule: rev_induct)
  case Nil
  show ?case by (simp add: run_def guardInv_initial)
next
  case (snoc e es)
  then show ?case by (simp add: run_snoc guardInv_step)
qed

lemma processQueue_resume_releases:
  "snd (processQueue_resume duePosts settle p) = p\<lparr>isProcessing := False\<rparr>"
  by (simp add: processQueue_resume_def Let_def)

text \<open>
  C4. Whatever the sequence of ticks and pass endings, at most one pass is in flight, and
  the guard is held exactly then. A tick that arrives while a pass is in flight returns at
  once and leaves the scheduler as it was: nothing is queued for later. When the pass ends
  the guard is released, whatever the fetch came back with and however the pipelines
  settled; a fetch that fails (an exception or an error of the query) gives the pass an
  empty list and ends it by the same path.
\<close>

theorem guard_exclusive:
  "inFlight (run es) \<le> 1 \<and>
   (isProcessing (processor (run es)) \<longleftrightarrow> inFlight (run es) = 1) \<and>
   (inFlight (run es) = 1 \<longrightarrow>
      fst (processQueue_enter (processor (run es))) = Skipped \<and>
      run (es @ [Tick]) = run es \<and>
      isProcessing (processor (run (es @ [PassEnds q settle]))) = False \<and>
      inFlight (run (es @ [PassEnds q settle])) = 0) \<and>
   (inFlight (run es) = 0 \<longrightarrow> inFlight (run (es @ [Tick])) = 1) \<and>
   getDuePosts (QueryRejected m) = [] \<and>
   getDuePosts (QueryAnswer rows (Some err)) = [] \<and>
   snd (processQueue_resume duePosts settle p) = p\<lparr>isProcessing := False\<rparr>"
proof -
  have inv: "guardInv (run es)" by (rule guardInv_run)
  have a: "inFlight (run es) \<le> 1"
    and b: "isProcessing (processor (run es)) \<longleftrightarrow> inFlight (run es) = 1"
    using inv by (simp_all add: guardInv_def)
  have c: "fst (processQueue_enter (processor (run es))) = Skipped \<and>
      run (es @ [Tick]) = run es \<and>
      isProcessing (processor (run (es @ [PassEnds q settle]))) = False \<and>
      inFlight (run (es @ [PassEnds q settle])) = 0" if "inFlight (run es) = 1"
    using that b
    by (simp add: run_snoc step_def processQueue_enter_def processQueue_resume_releases)
  have d: "inFlight (run (es @ [Tick])) = 1" if "inFlight (run es) = 0"
    using that b by (simp add: run_snoc step_def processQueue_enter_def)
  have e: "getDuePosts (QueryRejected m) = []" "getDuePosts (QueryAnswer rows (Some err)) = []"
    by (simp_all add: getDuePosts_def)
  from a b c d e show ?thesis
    by (simp add: processQueue_resume_releases)
qed

theorem guard_exclusive_witness:
  "run [Tick, Tick, Tick] = run [Tick] \<and>
   inFlight (run [Tick]) = 1 \<and>
   isProcessing (processor (run [Tick, Tick, PassEnds (QueryRejected ''Failed to fetch'') (\<lambda>p. Inl (OtherError ''x''))])) = False \<and>
   inFlight (run [Tick, Tick, PassEnds (QueryRejected ''Failed to fetch'') (\<lambda>p. Inl (OtherError ''x''))]) = 0"
proof -
  have one: "inFlight (run [Tick]) = 1"
    using guard_exclusive [of "[]", THEN conjunct2, THEN conjunct2, THEN conjunct2, THEN conjunct1]
    by (simp add: run_def initial_def)
  have two: "run [Tick, Tick] = run [Tick]"
    using guard_exclusive [of "[Tick]", THEN conjunct2, THEN conjunct2, THEN conjunct1, THEN mp,
      OF one, THEN conjunct2, THEN conjunct1]
    by simp
  then have one': "inFlight (run [Tick, Tick]) = 1"
    using one by simp
  have three: "run [Tick, Tick, Tick] = run [Tick, Tick]"
    using guard_exclusive [of "[Tick, Tick]", THEN conjunct2, THEN conjunct2, THEN conjunct1,
      THEN mp, OF one', THEN conjunct2, THEN conjunct1]
    by simp
  have four: "isProcessing (processor (run ([Tick, Tick] @
        [PassEnds (QueryRejected ''Failed to fetch'') (\<lambda>p. Inl (OtherError ''x''))]))) = False \<and>
      inFlight (run ([Tick, Tick] @
        [PassEnds (QueryRejected ''Failed to fetch'') (\<lambda>p. Inl (OtherError ''x''))])) = 0"
    using guard_exclusive [of "[Tick, Tick]", THEN conjunct2, THEN conjunct2, THEN conjunct1,
      THEN mp, OF one', THEN conjunct2, THEN conjunct2]
    by blast
  from one two three four show ?thesis by simp
qed


section \<open>The media check of the Instagram publisher\<close>

lemma publishToInstagram_no_media:
  assumes "firstMedia post = None"
  shows "publishToInstagram post account env st =
    (Inl (PostQueueError ''Instagram posts require media'' NETWORK_ERROR True), st)"
  using assms by (simp add: publishToInstagram_def publishToInstagram_try_def classify_def)

lemma one_string: "numberToString 1 = ''1''"
  by (simp add: numberToString_def digitsOf.simps digitChar_def)

lemma demoEnv_times:
  "t_processing demoEnv = 2000" "t_posted demoEnv = 2004" "t_failure demoEnv = 2005"
  by (simp_all add: demoEnv_def)

text \<open>
  C5. An Instagram post with an empty media list makes no request: the publisher throws
  \<open>INVALID_CONTENT\<close>, not retryable, inside its own \<^verbatim>\<open>try\<close> block. The \<^verbatim>\<open>catch\<close> block of
  the same method receives that error and throws it again as a retryable
  \<open>NETWORK_ERROR\<close>, so the pipeline does not mark the post failed: it reschedules it 30 s
  later with retry count 1.
\<close>

theorem instagram_no_media_rescheduled:
  "publishToInstagram igPost igAccount demoEnv demoApi =
     (Inl (PostQueueError ''Instagram posts require media'' NETWORK_ERROR True), demoApi) \<and>
   shouldRetryPost igPost (PostQueueError ''Instagram posts require media'' NETWORK_ERROR True) \<and>
   processPost igPost demoEnv (demoDb\<lparr>scheduled_posts := [igPost]\<rparr>, demoApi) =
     (Inl (PostQueueError ''Instagram posts require media'' NETWORK_ERROR True),
      demoDb\<lparr>scheduled_posts :=
        [igPost\<lparr>status := SCHEDULED, scheduled_for := 32005, retry_count := Some 1,
           error_message := Some ''Retry 1: Instagram posts require media'',
           updated_at := 2000\<rparr>]\<rparr>,
      demoApi)"
proof (intro conjI)
  have m: "firstMedia igPost = None"
    by (simp add: firstMedia_def igPost_def demoPost_def)
  show pub: "publishToInstagram igPost igAccount demoEnv demoApi =
     (Inl (PostQueueError ''Instagram posts require media'' NETWORK_ERROR True), demoApi)"
    by (rule publishToInstagram_no_media [OF m])
  show retry: "shouldRetryPost igPost
      (PostQueueError ''Instagram posts require media'' NETWORK_ERROR True)"
    by (simp add: shouldRetryPost_def retryCountOf_def orElse_def maxRetries_def igPost_def
        demoPost_def)
  have v: "validatePost igPost = Inr ()"
    by (simp add: validatePost_def blank_def trimmed_def trim_demo falsy_def igPost_def
        igAccount_def demoPost_def demoAccount_def)
  have p: "publishPost igPost demoEnv demoApi =
     (Inl (PostQueueError ''Instagram posts require media'' NETWORK_ERROR True), demoApi)"
    using pub by (simp add: publishPost_def igPost_def igAccount_def demoAccount_def)
  have i: "post_id igPost = 1" "retryCountOf igPost = 0"
    by (simp_all add: igPost_def demoPost_def retryCountOf_def orElse_def)
  have t: "processPost_try igPost demoEnv (demoDb\<lparr>scheduled_posts := [igPost]\<rparr>, demoApi) =
     (Inl (PostQueueError ''Instagram posts require media'' NETWORK_ERROR True),
      demoDb\<lparr>scheduled_posts := [igPost\<lparr>status := PROCESSING, updated_at := 2000\<rparr>]\<rparr>, demoApi)"
    by (simp add: processPost_try_def v p i updatePostStatus_def updateScheduledPost_def
        demoDb_def applyUpdates_def spread_def noUpdates_def orElse_def demoEnv_times)
  show "processPost igPost demoEnv (demoDb\<lparr>scheduled_posts := [igPost]\<rparr>, demoApi) =
     (Inl (PostQueueError ''Instagram posts require media'' NETWORK_ERROR True),
      demoDb\<lparr>scheduled_posts :=
        [igPost\<lparr>status := SCHEDULED, scheduled_for := 32005, retry_count := Some 1,
           error_message := Some ''Retry 1: Instagram posts require media'',
           updated_at := 2000\<rparr>]\<rparr>,
      demoApi)"
    by (simp add: processPost_def t processPost_catch_def retry scheduleRetry_def i
        nextDelay_table demoEnv_times retryMessage_def one_string)
       (simp add: updateScheduledPost_def demoDb_def applyUpdates_def noUpdates_def
        orElse_def i)
qed


section \<open>Cancelling\<close>

lemma find_in_set: "find P xs = Some x \<Longrightarrow> x \<in> set xs \<and> P x"
  by (induction xs) (auto split: if_splits)

lemma getScheduledPosts_subset:
  "set (fst (getScheduledPosts userId limit db)) \<subseteq> set (scheduled_posts db)"
proof (cases "online db")
  case True
  have "set (take limit (sort_key scheduled_for
      (filter (\<lambda>r. user_id r = userId) (scheduled_posts db))))
    \<subseteq> set (sort_key scheduled_for (filter (\<lambda>r. user_id r = userId) (scheduled_posts db)))"
    by (rule set_take_subset)
  with True show ?thesis by (auto simp: getScheduledPosts_def)
next
  case False
  then show ?thesis by (simp add: getScheduledPosts_def)
qed

lemma cancelPost_refuses_posted:
  assumes "stored db postId r" and "status r = POSTED"
  shows "\<exists>e. cancelPost postId userId db = (Inl e, db)"
proof (cases "find (\<lambda>p. post_id p = postId) (fst (getScheduledPosts userId 50 db))")
  case None
  then show ?thesis
    by (simp add: cancelPost_def cancelPost_during_def cancelPost_check_def)
next
  case (Some post)
  then have "post \<in> set (fst (getScheduledPosts userId 50 db))" and i: "post_id post = postId"
    by (auto dest: find_in_set)
  then have "post \<in> set (scheduled_posts db)"
    using getScheduledPosts_subset by blast
  with i have "post \<in> set (filter (\<lambda>x. post_id x = postId) (scheduled_posts db))"
    by simp
  with assms(1) have "post = r" by (simp add: stored_def)
  with Some assms(2) show ?thesis
    by (simp add: cancelPost_def cancelPost_during_def cancelPost_check_def)
qed

lemma cancelPost_cancels:
  assumes "stored db postId r"
    and "cancelPost_check postId userId db = Inr post"
  shows "fst (cancelPost postId userId db) = Inr True"
    and "getRow (snd (cancelPost postId userId db)) postId =
      Some (r\<lparr>status := CANCELLED, error_message := Some ''Cancelled by user''\<rparr>)"
  using assms
  by (simp_all add: cancelPost_def cancelPost_during_def cancelPost_write_def getRow_updated)
     (simp add: applyUpdates_def noUpdates_def orElse_def)

text \<open>
  C6. A cancel request that reads the post while its pipeline is still running sees status
  \<open>PROCESSING\<close> and goes on; when the pipeline's success write lands before the write of
  the cancel, that write, which is by id alone, replaces \<open>POSTED\<close> by \<open>CANCELLED\<close> on a
  post that is published (its platform post id stays). The run below is that of post 1:
  the pipeline writes \<open>PROCESSING\<close>, the cancel reads, the pipeline publishes and writes
  \<open>POSTED\<close>, the cancel writes. With nothing in between
  (\<open>cancelPost_refuses_posted\<close>, \<open>cancelPost_cancels\<close>) a posted post is refused and left
  as it is, and a post that passes the check is cancelled.
\<close>

theorem cancel_overwrites_posted:
  "snd (updatePostStatus 1 PROCESSING noUpdates 2000 demoDb) = midDb \<and>
   cancelPost_check 1 7 midDb = Inr (demoPost\<lparr>status := PROCESSING, updated_at := 2000\<rparr>) \<and>
   fst (snd (processPost demoPost demoEnv (demoDb, demoApi))) = postedWrite midDb \<and>
   postedWrite midDb =
     demoDb\<lparr>scheduled_posts :=
       [demoPost\<lparr>status := POSTED, platform_post_id := Some ''fb-100'', updated_at := 2004\<rparr>]\<rparr> \<and>
   cancelPost_during postedWrite 1 7 midDb =
     (Inr True,
      demoDb\<lparr>scheduled_posts :=
        [demoPost\<lparr>status := CANCELLED, platform_post_id := Some ''fb-100'', updated_at := 2004,
           error_message := Some ''Cancelled by user''\<rparr>]\<rparr>)"
proof (intro conjI)
  show mid: "snd (updatePostStatus 1 PROCESSING noUpdates 2000 demoDb) = midDb"
    by (simp add: midDb_def updatePostStatus_def updateScheduledPost_def demoDb_def
        demoPost_def applyUpdates_def spread_def noUpdates_def orElse_def)
  show chk: "cancelPost_check 1 7 midDb =
      Inr (demoPost\<lparr>status := PROCESSING, updated_at := 2000\<rparr>)"
    by (simp add: cancelPost_check_def getScheduledPosts_def midDb_def demoDb_def demoPost_def)
  have v: "validatePost demoPost = Inr ()"
    by (simp add: validatePost_def blank_def trimmed_def trim_demo falsy_def demoPost_def
        demoAccount_def)
  have i: "post_id demoPost = 1" by (simp add: demoPost_def)
  have p: "publishPost demoPost demoEnv demoApi =
     (Inr \<lparr>result_platform_post_id = Some ''fb-100'', result_platform = ''facebook''\<rparr>,
      \<lparr>tracker = \<lparr>requests = 2, resetTime = 3600000, maxRequests = 200\<rparr>,
       wire = [DebugToken (Some ''token-1''), FeedPost ''page-1'' (Some ''token-1'') [0x48, 0x69]]\<rparr>)"
    using publishPost_demo [where rc = "Some 0" and em = None] by (simp add: demoPost_def)
  have one: "updatePostStatus 1 PROCESSING noUpdates 2000 demoDb = (Inr (), midDb)"
    using mid
    by (simp add: updatePostStatus_def updateScheduledPost_def demoDb_def demoPost_def)
  have two: "updatePostStatus 1 POSTED
       (noUpdates\<lparr>set_platform_post_id := Some (Some ''fb-100''), set_error_message := Some None\<rparr>)
       2004 midDb = (Inr (), postedWrite midDb)"
    by (simp add: postedWrite_def updatePostStatus_def updateScheduledPost_def midDb_def
        demoDb_def demoPost_def)
  show "fst (snd (processPost demoPost demoEnv (demoDb, demoApi))) = postedWrite midDb"
    unfolding processPost_def processPost_try_def i demoEnv_times prod.case one v p
    by (simp add: two del: One_nat_def)
  show wr: "postedWrite midDb =
     demoDb\<lparr>scheduled_posts :=
       [demoPost\<lparr>status := POSTED, platform_post_id := Some ''fb-100'', updated_at := 2004\<rparr>]\<rparr>"
    by (simp add: postedWrite_def updatePostStatus_def updateScheduledPost_def midDb_def
        demoDb_def demoPost_def applyUpdates_def spread_def noUpdates_def orElse_def)
  show "cancelPost_during postedWrite 1 7 midDb =
     (Inr True,
      demoDb\<lparr>scheduled_posts :=
        [demoPost\<lparr>status := CANCELLED, platform_post_id := Some ''fb-100'', updated_at := 2004,
           error_message := Some ''Cancelled by user''\<rparr>]\<rparr>)"
    unfolding cancelPost_during_def chk wr
    by (simp add: cancelPost_write_def updateScheduledPost_def demoDb_def
        demoPost_def applyUpdates_def noUpdates_def orElse_def)
qed

section \<open>The token check of the Facebook publisher\<close>

lemma acquire_wire [simp]: "wire (snd (acquire now st)) = wire st"
  by (simp add: acquire_def split: prod.splits)

lemma validateToken_wire:
  "wire (snd (validateToken tok now r st)) =
     (case fst (validateToken tok now r st) of
        Inl e \<Rightarrow> wire st
      | Inr v \<Rightarrow> wire st @ [DebugToken tok])"
proof (cases "acquire now st")
  case (Pair res st1)
  have "wire st1 = wire st" using acquire_wire [of now st] Pair by simp
  with Pair show ?thesis
    by (cases res) (simp_all add: validateToken_def send_def)
qed

lemma publishPagePost_wire:
  "\<exists>calls. wire (snd (publishPagePost pageId tok msg now r st)) = wire st @ calls \<and> oneCall calls"
proof (cases "acquire now st")
  case (Pair res st1)
  have w: "wire st1 = wire st" using acquire_wire [of now st] Pair by simp
  show ?thesis
  proof (cases res)
    case (Inl e)
    with Pair w show ?thesis by (simp add: publishPagePost_def oneCall_def)
  next
    case (Inr u)
    with Pair w show ?thesis
      by (cases "trimmed msg") (simp_all add: publishPagePost_def oneCall_def send_def)
  qed
qed

lemma publishPagePhoto_wire:
  "\<exists>calls. wire (snd (publishPagePhoto pageId tok msg url now r st)) = wire st @ calls \<and> oneCall calls"
proof (cases "acquire now st")
  case (Pair res st1)
  have w: "wire st1 = wire st" using acquire_wire [of now st] Pair by simp
  from Pair w show ?thesis
    by (cases res) (simp_all add: publishPagePhoto_def oneCall_def send_def)
qed

lemma publishToFacebook_wire: "wire (snd (publishToFacebook post account env st)) =
    wire (snd (publishToFacebook_try post account env st))"
  by (simp add: publishToFacebook_def split: prod.splits sum.splits)

text \<open>
  C8 (as the code has it). Whatever the post, the account and the answers of the network,
  the Facebook publisher puts on the wire nothing, or the token introspection alone, or
  the introspection followed by one publishing request: no publishing request goes out
  before the introspection. When the introspection does not report a valid token, the
  publisher fails with an error flagged retryable and the introspection is the only
  request made.
\<close>

theorem publishToFacebook_token_first:
  "(\<exists>calls. wire (snd (publishToFacebook post account env st)) = wire st @ calls \<and>
       (calls = [] \<or> calls = [DebugToken (access_token account)] \<or>
        (\<exists>c. calls = [DebugToken (access_token account), c] \<and> isPublishCall c))) \<and>
   (fst (validateToken (access_token account) (t_validate env) (r_validate env) st) = Inr False \<longrightarrow>
      (\<exists>m ty. fst (publishToFacebook post account env st) = Inl (PostQueueError m ty True)) \<and>
      wire (snd (publishToFacebook post account env st)) =
        wire st @ [DebugToken (access_token account)])"
proof (cases "validateToken (access_token account) (t_validate env) (r_validate env) st")
  case (Pair res st1)
  have w1: "wire st1 = (case res of Inl e \<Rightarrow> wire st | Inr v \<Rightarrow> wire st @ [DebugToken (access_token account)])"
    using validateToken_wire [of "access_token account" "t_validate env" "r_validate env" st] Pair
    by simp
  show ?thesis
  proof (cases res)
    case (Inl e)
    with Pair w1 show ?thesis
      by (simp add: publishToFacebook_def publishToFacebook_try_def)
  next
    case (Inr valid)
    show ?thesis
    proof (cases valid)
      case False
      with Pair Inr w1 show ?thesis
        by (simp add: publishToFacebook_def publishToFacebook_try_def classify_def)
    next
      case True
      obtain calls where c: "wire (snd (case firstMedia post of
                        Some url \<Rightarrow>
                          publishPagePhoto (account_id account) (access_token account)
                            (content post) url (t_first env) (r_first env) st1
                      | None \<Rightarrow>
                          publishPagePost (account_id account) (access_token account)
                            (content post) (t_first env) (r_first env) st1)) = wire st1 @ calls"
        and o: "oneCall calls"
        using publishPagePost_wire publishPagePhoto_wire
        by (cases "firstMedia post") (simp_all, blast+)
      have "wire (snd (publishToFacebook_try post account env st)) = wire st1 @ calls"
        using Pair Inr True c
        by (auto simp: publishToFacebook_try_def split: prod.splits sum.splits)
      with Pair Inr True w1 o show ?thesis
        by (auto simp: publishToFacebook_wire oneCall_def)
    qed
  qed
qed


lemma validateToken_bad:
  "validateToken (Some ''token-1'') (t_validate badTokenEnv) (r_validate badTokenEnv) demoApi =
     (Inr False,
      \<lparr>tracker = \<lparr>requests = 1, resetTime = 3600000, maxRequests = 200\<rparr>,
       wire = [DebugToken (Some ''token-1'')]\<rparr>)"
  by (simp add: validateToken_def acquire_def checkLimit_def send_def badTokenEnv_def
      demoEnv_def demoApi_def)

theorem publishToFacebook_token_first_witness:
  "wire (snd (publishToFacebook demoPost demoAccount badTokenEnv demoApi)) =
     [DebugToken (Some ''token-1'')]"
proof -
  have h: "fst (validateToken (access_token demoAccount) (t_validate badTokenEnv)
      (r_validate badTokenEnv) demoApi) = Inr False"
    by (simp add: demoAccount_def validateToken_bad)
  from publishToFacebook_token_first [of demoPost demoAccount badTokenEnv demoApi,
      THEN conjunct2, THEN mp, OF h, THEN conjunct2]
  show ?thesis
    by (simp add: demoAccount_def demoApi_def)
qed

text \<open>
  C8 as stated does not hold: with a token the introspection reports as not valid, the
  error the publisher throws is flagged retryable, and the retry policy reschedules the
  post.
\<close>

theorem invalid_token_is_retryable:
  "publishToFacebook demoPost demoAccount badTokenEnv demoApi =
     (Inl (PostQueueError ''Facebook access token is invalid'' NETWORK_ERROR True),
      \<lparr>tracker = \<lparr>requests = 1, resetTime = 3600000, maxRequests = 200\<rparr>,
       wire = [DebugToken (Some ''token-1'')]\<rparr>) \<and>
   retryable (PostQueueError ''Facebook access token is invalid'' NETWORK_ERROR True) \<and>
   shouldRetryPost demoPost (PostQueueError ''Facebook access token is invalid'' NETWORK_ERROR True)"
proof (intro conjI)
  have a: "access_token demoAccount = Some ''token-1''"
    by (simp add: demoAccount_def)
  show "publishToFacebook demoPost demoAccount badTokenEnv demoApi =
     (Inl (PostQueueError ''Facebook access token is invalid'' NETWORK_ERROR True),
      \<lparr>tracker = \<lparr>requests = 1, resetTime = 3600000, maxRequests = 200\<rparr>,
       wire = [DebugToken (Some ''token-1'')]\<rparr>)"
    by (simp add: publishToFacebook_def publishToFacebook_try_def a validateToken_bad classify_def)
  show "retryable (PostQueueError ''Facebook access token is invalid'' NETWORK_ERROR True)"
    by simp
  show "shouldRetryPost demoPost
      (PostQueueError ''Facebook access token is invalid'' NETWORK_ERROR True)"
    by (simp add: shouldRetryPost_def retryCountOf_def orElse_def maxRetries_def demoPost_def)
qed


section \<open>One gate for all platforms\<close>

lemma checkLimit_granted:
  assumes "fst (checkLimit now t) = Inr u" and "now \<le> resetTime t"
  shows "snd (checkLimit now t) = t\<lparr>requests := requests t + 1\<rparr>"
  using assms by (simp add: checkLimit_def Let_def split: if_splits)

lemma validateToken_tracker:
  "tracker (snd (validateToken tok now r st)) = snd (checkLimit now (tracker st))"
  by (cases "checkLimit now (tracker st)")
     (auto simp: validateToken_def acquire_def send_def split: sum.splits)

lemma publishPagePost_tracker:
  "tracker (snd (publishPagePost pageId tok msg now r st)) = snd (checkLimit now (tracker st))"
  by (cases "checkLimit now (tracker st)")
     (auto simp: publishPagePost_def acquire_def send_def split: sum.splits option.splits)

lemma publishPagePhoto_tracker:
  "tracker (snd (publishPagePhoto pageId tok msg url now r st)) = snd (checkLimit now (tracker st))"
  by (cases "checkLimit now (tracker st)")
     (auto simp: publishPagePhoto_def acquire_def send_def split: sum.splits)

lemma createInstagramPost_tracker:
  "tracker (snd (createInstagramPost igId tok img caption now r st)) =
     snd (checkLimit now (tracker st))"
  by (cases "checkLimit now (tracker st)")
     (auto simp: createInstagramPost_def acquire_def send_def split: sum.splits)

lemma publishInstagramPost_tracker:
  "tracker (snd (publishInstagramPost igId creation tok now r st)) =
     snd (checkLimit now (tracker st))"
  by (cases "checkLimit now (tracker st)")
     (auto simp: publishInstagramPost_def acquire_def send_def split: sum.splits)

lemma validateToken_granted:
  "fst (validateToken tok now r st) = Inr v \<Longrightarrow> fst (checkLimit now (tracker st)) = Inr ()"
  by (cases "checkLimit now (tracker st)")
     (auto simp: validateToken_def acquire_def split: sum.splits)

lemma publishPagePost_granted:
  "fst (publishPagePost pageId tok msg now r st) = Inr v \<Longrightarrow>
     fst (checkLimit now (tracker st)) = Inr ()"
  by (cases "checkLimit now (tracker st)")
     (auto simp: publishPagePost_def acquire_def split: sum.splits option.splits)

lemma publishPagePhoto_granted:
  "fst (publishPagePhoto pageId tok msg url now r st) = Inr v \<Longrightarrow>
     fst (checkLimit now (tracker st)) = Inr ()"
  by (cases "checkLimit now (tracker st)")
     (auto simp: publishPagePhoto_def acquire_def split: sum.splits)

lemma createInstagramPost_granted:
  "fst (createInstagramPost igId tok img caption now r st) = Inr v \<Longrightarrow>
     fst (checkLimit now (tracker st)) = Inr ()"
  by (cases "checkLimit now (tracker st)")
     (auto simp: createInstagramPost_def acquire_def split: sum.splits)

lemma publishInstagramPost_granted:
  "fst (publishInstagramPost igId creation tok now r st) = Inr v \<Longrightarrow>
     fst (checkLimit now (tracker st)) = Inr ()"
  by (cases "checkLimit now (tracker st)")
     (auto simp: publishInstagramPost_def acquire_def split: sum.splits)


lemma publishToFacebook_success:
  assumes ok: "fst (publishToFacebook post account env st) = Inr res"
    and t1: "t_validate env \<le> resetTime (tracker st)"
    and t2: "t_first env \<le> resetTime (tracker st)"
  shows "tracker (snd (publishToFacebook post account env st)) =
    (tracker st)\<lparr>requests := requests (tracker st) + 2\<rparr>"
proof -
  obtain rv st1 where V:
    "validateToken (access_token account) (t_validate env) (r_validate env) st = (rv, st1)"
    by (cases "validateToken (access_token account) (t_validate env) (r_validate env) st")
  have v: "rv = Inr True"
    using ok V
    by (cases rv) (auto simp: publishToFacebook_def publishToFacebook_try_def split: if_splits)
  have g1: "fst (checkLimit (t_validate env) (tracker st)) = Inr ()"
    using validateToken_granted [of "access_token account" "t_validate env" "r_validate env" st True]
      V v by simp
  have tr1: "tracker st1 = (tracker st)\<lparr>requests := requests (tracker st) + 1\<rparr>"
    using validateToken_tracker [of "access_token account" "t_validate env" "r_validate env" st]
      checkLimit_granted [OF g1 t1] V by simp
  have t2': "t_first env \<le> resetTime (tracker st1)"
    using t2 by (simp add: tr1)
  show ?thesis
  proof (cases "firstMedia post")
    case None
    obtain rp st2 where P: "publishPagePost (account_id account) (access_token account)
        (content post) (t_first env) (r_first env) st1 = (rp, st2)"
      by (cases "publishPagePost (account_id account) (access_token account)
        (content post) (t_first env) (r_first env) st1")
    from ok V v None P obtain reply where p: "rp = Inr reply"
      and out: "snd (publishToFacebook post account env st) = st2"
      by (cases rp) (auto simp: publishToFacebook_def publishToFacebook_try_def)
    have g2: "fst (checkLimit (t_first env) (tracker st1)) = Inr ()"
      using publishPagePost_granted [of "account_id account" "access_token account"
          "content post" "t_first env" "r_first env" st1 reply] P p by simp
    have "tracker st2 = snd (checkLimit (t_first env) (tracker st1))"
      using publishPagePost_tracker [of "account_id account" "access_token account"
          "content post" "t_first env" "r_first env" st1] P by simp
    with checkLimit_granted [OF g2 t2'] show ?thesis
      by (simp add: out tr1)
  next
    case (Some url)
    obtain rp st2 where P: "publishPagePhoto (account_id account) (access_token account)
        (content post) url (t_first env) (r_first env) st1 = (rp, st2)"
      by (cases "publishPagePhoto (account_id account) (access_token account)
        (content post) url (t_first env) (r_first env) st1")
    from ok V v Some P obtain reply where p: "rp = Inr reply"
      and out: "snd (publishToFacebook post account env st) = st2"
      by (cases rp) (auto simp: publishToFacebook_def publishToFacebook_try_def)
    have g2: "fst (checkLimit (t_first env) (tracker st1)) = Inr ()"
      using publishPagePhoto_granted [of "account_id account" "access_token account"
          "content post" url "t_first env" "r_first env" st1 reply] P p by simp
    have "tracker st2 = snd (checkLimit (t_first env) (tracker st1))"
      using publishPagePhoto_tracker [of "account_id account" "access_token account"
          "content post" url "t_first env" "r_first env" st1] P by simp
    with checkLimit_granted [OF g2 t2'] show ?thesis
      by (simp add: out tr1)
  qed
qed

lemma publishToInstagram_success:
  assumes ok: "fst (publishToInstagram post account env st) = Inr res"
    and t1: "t_validate env \<le> resetTime (tracker st)"
    and t2: "t_first env \<le> resetTime (tracker st)"
    and t3: "t_second env \<le> resetTime (tracker st)"
  shows "tracker (snd (publishToInstagram post account env st)) =
    (tracker st)\<lparr>requests := requests (tracker st) + 3\<rparr>"
proof (cases "firstMedia post")
  case None
  with ok show ?thesis
    by (simp add: publishToInstagram_def publishToInstagram_try_def)
next
  case (Some url)
  obtain rv st1 where V:
    "validateToken (access_token account) (t_validate env) (r_validate env) st = (rv, st1)"
    by (cases "validateToken (access_token account) (t_validate env) (r_validate env) st")
  have v: "rv = Inr True"
    using ok V Some
    by (cases rv) (auto simp: publishToInstagram_def publishToInstagram_try_def split: if_splits)
  have g1: "fst (checkLimit (t_validate env) (tracker st)) = Inr ()"
    using validateToken_granted [of "access_token account" "t_validate env" "r_validate env" st True]
      V v by simp
  have tr1: "tracker st1 = (tracker st)\<lparr>requests := requests (tracker st) + 1\<rparr>"
    using validateToken_tracker [of "access_token account" "t_validate env" "r_validate env" st]
      checkLimit_granted [OF g1 t1] V by simp
  have t2': "t_first env \<le> resetTime (tracker st1)"
    using t2 by (simp add: tr1)
  obtain rc st2 where C: "createInstagramPost (account_id account) (access_token account)
      url (content post) (t_first env) (r_first env) st1 = (rc, st2)"
    by (cases "createInstagramPost (account_id account) (access_token account)
      url (content post) (t_first env) (r_first env) st1")
  have "\<exists>creationResult. rc = Inr creationResult"
    using ok V v Some C
    by (cases rc) (auto simp: publishToInstagram_def publishToInstagram_try_def)
  then obtain creationResult where c: "rc = Inr creationResult" ..
  have g2: "fst (checkLimit (t_first env) (tracker st1)) = Inr ()"
    using createInstagramPost_granted [of "account_id account" "access_token account"
        url "content post" "t_first env" "r_first env" st1 creationResult] C c by simp
  have "tracker st2 = snd (checkLimit (t_first env) (tracker st1))"
    using createInstagramPost_tracker [of "account_id account" "access_token account"
        url "content post" "t_first env" "r_first env" st1] C by simp
  with checkLimit_granted [OF g2 t2']
  have tr2: "tracker st2 = (tracker st)\<lparr>requests := requests (tracker st) + 2\<rparr>"
    by (simp add: tr1)
  have t3': "t_second env \<le> resetTime (tracker st2)"
    using t3 by (simp add: tr2)
  obtain rp st3 where P: "publishInstagramPost (account_id account) (reply_id creationResult)
      (access_token account) (t_second env) (r_second env) st2 = (rp, st3)"
    by (cases "publishInstagramPost (account_id account) (reply_id creationResult)
      (access_token account) (t_second env) (r_second env) st2")
  from ok V v Some C c P obtain publishReply where p: "rp = Inr publishReply"
    and out: "snd (publishToInstagram post account env st) = st3"
    by (cases rp) (auto simp: publishToInstagram_def publishToInstagram_try_def)
  have g3: "fst (checkLimit (t_second env) (tracker st2)) = Inr ()"
    using publishInstagramPost_granted [of "account_id account" "reply_id creationResult"
        "access_token account" "t_second env" "r_second env" st2 publishReply] P p by simp
  have "tracker st3 = snd (checkLimit (t_second env) (tracker st2))"
    using publishInstagramPost_tracker [of "account_id account" "reply_id creationResult"
        "access_token account" "t_second env" "r_second env" st2] P by simp
  with checkLimit_granted [OF g3 t3'] show ?thesis
    by (simp add: out tr2)
qed


text \<open>
  C9 (as the code has it). There is one counter, whatever the platform: the permission
  check of every request, be it the token introspection, a Facebook page post or photo, or
  an Instagram media creation or publication, is \<open>checkLimit\<close> on the same tracker. Inside
  a window a successful Facebook publish raises that one count by 2 and a successful
  Instagram publish raises it by 3.
\<close>

theorem shared_rate_gate:
  "tracker (snd (validateToken tok now rv st)) = snd (checkLimit now (tracker st)) \<and>
   tracker (snd (publishPagePost pageId tok msg now r st)) = snd (checkLimit now (tracker st)) \<and>
   tracker (snd (publishPagePhoto pageId tok msg url now r st)) =
     snd (checkLimit now (tracker st)) \<and>
   tracker (snd (createInstagramPost igId tok img caption now r st)) =
     snd (checkLimit now (tracker st)) \<and>
   tracker (snd (publishInstagramPost igId creation tok now r st)) =
     snd (checkLimit now (tracker st)) \<and>
   (social_accounts post = Some account \<and> fst (publishPost post env api) = Inr res \<and>
    t_validate env \<le> resetTime (tracker api) \<and> t_first env \<le> resetTime (tracker api) \<and>
    t_second env \<le> resetTime (tracker api) \<longrightarrow>
      tracker (snd (publishPost post env api)) =
        (tracker api)\<lparr>requests :=
           requests (tracker api) + (if platform account = ''facebook'' then 2 else 3)\<rparr>)"
proof (intro conjI impI)
  assume a: "social_accounts post = Some account \<and> fst (publishPost post env api) = Inr res \<and>
    t_validate env \<le> resetTime (tracker api) \<and> t_first env \<le> resetTime (tracker api) \<and>
    t_second env \<le> resetTime (tracker api)"
  show "tracker (snd (publishPost post env api)) =
        (tracker api)\<lparr>requests :=
           requests (tracker api) + (if platform account = ''facebook'' then 2 else 3)\<rparr>"
  proof (cases "platform account = ''facebook''")
    case True
    from a have sa: "social_accounts post = Some account"
      and ok: "fst (publishPost post env api) = Inr res"
      and t: "t_validate env \<le> resetTime (tracker api)" "t_first env \<le> resetTime (tracker api)"
      by simp_all
    have eq: "publishPost post env api = publishToFacebook post account env api"
      using sa True by (simp add: publishPost_def)
    with ok have "fst (publishToFacebook post account env api) = Inr res" by simp
    from publishToFacebook_success [OF this t] True show ?thesis
      by (simp add: eq)
  next
    case False
    from a have sa: "social_accounts post = Some account"
      and ok: "fst (publishPost post env api) = Inr res"
      and t: "t_validate env \<le> resetTime (tracker api)" "t_first env \<le> resetTime (tracker api)"
        "t_second env \<le> resetTime (tracker api)"
      by simp_all
    have ig: "platform account = ''instagram''"
      using sa ok False by (auto simp: publishPost_def split: if_splits)
    have eq: "publishPost post env api = publishToInstagram post account env api"
      using sa False ig by (simp add: publishPost_def)
    with ok have "fst (publishToInstagram post account env api) = Inr res" by simp
    from publishToInstagram_success [OF this t] False show ?thesis
      by (simp add: eq)
  qed
qed (simp_all add: validateToken_tracker publishPagePost_tracker publishPagePhoto_tracker
      createInstagramPost_tracker publishInstagramPost_tracker)

lemma publishPost_facebook_small:
  "publishPost demoPost demoEnv smallApi =
     (Inr \<lparr>result_platform_post_id = Some ''fb-100'', result_platform = ''facebook''\<rparr>,
      \<lparr>tracker = \<lparr>requests = 2, resetTime = 3600000, maxRequests = 4\<rparr>,
       wire = [DebugToken (Some ''token-1''), FeedPost ''page-1'' (Some ''token-1'') [0x48, 0x69]]\<rparr>)"
  by (simp add: publishPost_def publishToFacebook_def publishToFacebook_try_def validateToken_def
      publishPagePost_def acquire_def checkLimit_def send_def graphResult_def firstMedia_def
      firstTruthy_def falsy_def trimmed_def trim_demo demoPost_def demoAccount_def demoEnv_def
      smallApi_def demoReply_def)

lemma publishPost_instagram_small:
  "publishPost igMediaPost demoEnv smallApi =
     (Inr \<lparr>result_platform_post_id = Some ''fb-100'', result_platform = ''instagram''\<rparr>,
      \<lparr>tracker = \<lparr>requests = 3, resetTime = 3600000, maxRequests = 4\<rparr>,
       wire = [DebugToken (Some ''token-1''),
               MediaCreate ''ig-1'' (Some ''token-1'') ''https://cdn.example/1.jpg''
                 (Some [0x48, 0x69]),
               MediaPublish ''ig-1'' (Some ''token-1'') (Some ''fb-100'')]\<rparr>)"
  by (simp add: publishPost_def publishToInstagram_def publishToInstagram_try_def
      validateToken_def createInstagramPost_def publishInstagramPost_def acquire_def
      checkLimit_def send_def graphResult_def firstMedia_def trimmed_def trim_demo
      igMediaPost_def igPost_def igAccount_def demoPost_def demoAccount_def demoEnv_def
      smallApi_def demoReply_def)

theorem shared_rate_gate_witness:
  "tracker (snd (publishPost igMediaPost demoEnv smallApi)) =
     \<lparr>requests = 3, resetTime = 3600000, maxRequests = 4\<rparr>"
proof -
  have h: "social_accounts igMediaPost = Some igAccount \<and>
    fst (publishPost igMediaPost demoEnv smallApi) =
      Inr \<lparr>result_platform_post_id = Some ''fb-100'', result_platform = ''instagram''\<rparr> \<and>
    t_validate demoEnv \<le> resetTime (tracker smallApi) \<and>
    t_first demoEnv \<le> resetTime (tracker smallApi) \<and>
    t_second demoEnv \<le> resetTime (tracker smallApi)"
    by (simp add: publishPost_instagram_small)
       (simp add: igMediaPost_def igPost_def demoEnv_def smallApi_def)
  from shared_rate_gate [where post = igMediaPost and account = igAccount and env = demoEnv
      and api = smallApi, THEN conjunct2, THEN conjunct2, THEN conjunct2, THEN conjunct2,
      THEN conjunct2, THEN mp, OF h]
  show ?thesis
    by (simp add: igAccount_def demoAccount_def smallApi_def)
qed

text \<open>
  C9 as stated does not hold: with room for four requests, an Instagram publish that
  succeeds on its own is denied by the gate at its third request when a Facebook publish
  came first, because the two requests of the Facebook publish were counted against it.
\<close>

theorem facebook_publish_uses_instagram_capacity:
  "fst (publishPost igMediaPost demoEnv smallApi) =
     Inr \<lparr>result_platform_post_id = Some ''fb-100'', result_platform = ''instagram''\<rparr> \<and>
   requests (tracker (snd (publishPost demoPost demoEnv smallApi))) = 2 \<and>
   fst (publishPost igMediaPost demoEnv (snd (publishPost demoPost demoEnv smallApi))) =
     Inl (PostQueueError (rateLimitMessage 3598) RATE_LIMIT True)"
proof (intro conjI)
  show "fst (publishPost igMediaPost demoEnv smallApi) =
     Inr \<lparr>result_platform_post_id = Some ''fb-100'', result_platform = ''instagram''\<rparr>"
    by (simp add: publishPost_instagram_small)
  show "requests (tracker (snd (publishPost demoPost demoEnv smallApi))) = 2"
    by (simp add: publishPost_facebook_small)
  show "fst (publishPost igMediaPost demoEnv (snd (publishPost demoPost demoEnv smallApi))) =
     Inl (PostQueueError (rateLimitMessage 3598) RATE_LIMIT True)"
    unfolding publishPost_facebook_small
    by (simp add: publishPost_def publishToInstagram_def publishToInstagram_try_def
      validateToken_def createInstagramPost_def publishInstagramPost_def acquire_def
      checkLimit_def send_def graphResult_def firstMedia_def trimmed_def trim_demo
      igMediaPost_def igPost_def igAccount_def demoPost_def demoAccount_def demoEnv_def
      demoReply_def classify_def ceilSeconds_def)
qed


end
